theory Spec2Isabelle
  imports Complex_Main "HOL-Library.Log_Nat" "HOL-Library.Code_Target_Numeral"
begin

section \<open>The calorie and macro planning engine of WeightCut (app.py)\<close>

text \<open>
  The planning functions of \<^verbatim>\<open>app.py\<close> are arithmetic on Python floats. The first
  embedding of each function reads a float as a real number and the float operations as
  the exact operations on reals. It states the formulas of the source: an equality
  between computed values proved of it is an equality of the exact values, from which
  the binary64 results of the running program can differ in the last place.

  Where a property depends on the rounding (an exact equality of sums, the side of a
  threshold, an order between results) the function is embedded a second time, under
  the same name with the suffix \<open>_b64\<close>: there every operation and every decimal
  literal is rounded to binary64, to the nearest value with ties to even, as the
  program's arithmetic does, and the arguments stand for binary64 values.

  Both embeddings keep the comparisons, the branches and the order of the operations of
  the source. Both leave out overflow to infinity and NaN: the values are taken to stay
  in the finite range of binary64.

  Python integers (the day count of a \<^verbatim>\<open>timedelta\<close>, the calorie adjustment) are
  \<open>int\<close>. A calendar date is its day number (\<^verbatim>\<open>date.toordinal()\<close>), so that the
  difference of two dates is the \<^verbatim>\<open>.days\<close> of their \<^verbatim>\<open>timedelta\<close>.
\<close>

subsection \<open>BMR estimator: \<^verbatim>\<open>calculate_bmr_and_calories\<close>\<close>

text \<open>
  The column \<^verbatim>\<open>bodyfat_percentage\<close> is nullable, so the argument is an optional
  float. The guard \<^verbatim>\<open>bodyfat_percentage and bodyfat_percentage > 0\<close> first tests the
  truthiness of the value: \<^verbatim>\<open>None\<close> and \<^verbatim>\<open>0.0\<close> are false.
\<close>

definition truthy :: "real option \<Rightarrow> bool" where
  "truthy v = (case v of None \<Rightarrow> False | Some x \<Rightarrow> x \<noteq> 0)"

definition bodyfat_known :: "real option \<Rightarrow> bool" where
  "bodyfat_known bodyfat_percentage =
     (truthy bodyfat_percentage \<and>
      (case bodyfat_percentage of None \<Rightarrow> False | Some b \<Rightarrow> b > 0))"

definition calculate_bmr_and_calories :: "real \<Rightarrow> real \<Rightarrow> real option \<Rightarrow> real" where
  "calculate_bmr_and_calories weight height bodyfat_percentage =
     (let height_cm = height * 2.54;
          weight_kg = weight * 0.453592
      in if bodyfat_known bodyfat_percentage then
           (let lean_body_mass_kg = weight_kg * (1 - the bodyfat_percentage / 100)
            in 370 + (21.6 * lean_body_mass_kg))
         else (10 * weight_kg) + (6.25 * height_cm) - (5 * 30) + 5)"

subsection \<open>Macro allocator: \<^verbatim>\<open>calculate_macros\<close>\<close>

text \<open>
  The function returns a dictionary with six fixed keys, all floats: a record with the
  keys as fields. \<^verbatim>\<open>if lean_body_mass:\<close> is again a truthiness test, false for
  \<^verbatim>\<open>None\<close> and for \<^verbatim>\<open>0.0\<close>. The defaults of the keyword arguments
  (\<^verbatim>\<open>fat_percentage=0.25\<close>, \<^verbatim>\<open>carb_percentage=None\<close>,
  \<^verbatim>\<open>lean_body_mass=None\<close>) are passed explicitly.
\<close>

record macros =
  protein_grams :: real
  protein_calories :: real
  fat_grams :: real
  fat_calories :: real
  carb_grams :: real
  carb_calories :: real

definition calculate_macros ::
  "real \<Rightarrow> real \<Rightarrow> real \<Rightarrow> real option \<Rightarrow> real option \<Rightarrow> macros" where
  "calculate_macros weight target_calories fat_percentage carb_percentage lean_body_mass =
     (let protein_g = (if truthy lean_body_mass then the lean_body_mass * 1.2 else weight);
          protein_cal = protein_g * 4;
          fat_cal = target_calories * fat_percentage;
          fat_g = fat_cal / 9;
          carb_cal = (case carb_percentage of
                        Some c \<Rightarrow> target_calories * c
                      | None \<Rightarrow> target_calories - protein_cal - fat_cal);
          carb_g = carb_cal / 4
      in \<lparr>protein_grams = protein_g, protein_calories = protein_cal,
          fat_grams = fat_g, fat_calories = fat_cal,
          carb_grams = carb_g, carb_calories = carb_cal\<rparr>)"

subsection \<open>Micro allocator: \<^verbatim>\<open>calculate_micros\<close>\<close>

record micros =
  fiber_grams :: int
  sodium_mg :: int

definition calculate_micros :: "int \<Rightarrow> micros" where
  "calculate_micros days_to_goal =
     (if days_to_goal = 3 then \<lparr>fiber_grams = 8, sodium_mg = 1500\<rparr>
      else if days_to_goal = 2 then \<lparr>fiber_grams = 5, sodium_mg = 1000\<rparr>
      else if days_to_goal = 1 then \<lparr>fiber_grams = 4, sodium_mg = 800\<rparr>
      else \<lparr>fiber_grams = 30, sodium_mg = 2300\<rparr>)"

subsection \<open>The weight history and its query\<close>

text \<open>
  A row of the table \<^verbatim>\<open>weight_logs\<close> (the class \<^verbatim>\<open>WeightLog\<close>); the fields carry
  the prefix \<open>wl_\<close> because \<open>weight\<close> and \<open>username\<close> also name arguments of
  the functions below. The database session is the list of the table's rows.
\<close>

record WeightLog =
  wl_username :: string
  wl_log_date :: int
  wl_weight :: real
  wl_notes :: string

type_synonym session = "WeightLog list"

text \<open>
  \<^verbatim>\<open>order_by(WeightLog.log_date.desc())\<close>: a stable sort on the negated date. SQL
  leaves the order of rows of equal date open; the model keeps the table order there.
  \<^verbatim>\<open>first()\<close> is the first row of the result, or \<^verbatim>\<open>None\<close>.
\<close>

definition order_by_log_date_desc :: "WeightLog list \<Rightarrow> WeightLog list" where
  "order_by_log_date_desc rows = sort_key (\<lambda>l. - wl_log_date l) rows"

definition first_row :: "WeightLog list \<Rightarrow> WeightLog option" where
  "first_row rows = (case rows of [] \<Rightarrow> None | r # _ \<Rightarrow> Some r)"

definition latest_weight_log :: "session \<Rightarrow> string \<Rightarrow> int \<Rightarrow> WeightLog option" where
  "latest_weight_log session username current_date =
     first_row (order_by_log_date_desc
       (filter (\<lambda>l. wl_username l = username \<and> wl_log_date l \<le> current_date) session))"

subsection \<open>Formatting a float with \<^verbatim>\<open>:.1f\<close>\<close>

text \<open>
  Python prints the decimal nearest to the exact value of the float, a tie going to the
  even digit, and keeps the sign of a negative value that rounds to zero. Applied to a
  binary64 value \<open>format_1f\<close> gives the text that Python prints; a decimal that is not
  a binary64 value never reaches the program's formatting.
\<close>

definition round_half_even :: "real \<Rightarrow> int" where
  "round_half_even x =
     (let f = \<lfloor>x\<rfloor>; d = x - of_int f
      in if d < 1 / 2 then f else if d > 1 / 2 then f + 1
         else if even f then f else f + 1)"

definition digit_char :: "nat \<Rightarrow> char" where
  "digit_char d = ''0123456789'' ! d"

fun str_nat :: "nat \<Rightarrow> string" where
  "str_nat n = (if n < 10 then [digit_char n] else str_nat (n div 10) @ [digit_char (n mod 10)])"

definition format_1f :: "real \<Rightarrow> string" where
  "format_1f x =
     (let n = nat (round_half_even (\<bar>x\<bar> * 10))
      in (if x < 0 then ''-'' else []) @ str_nat (n div 10) @ ''.'' @ str_nat (n mod 10))"

subsection \<open>Rounding to binary64\<close>

text \<open>
  \<open>b64 x\<close> is the binary64 value nearest to \<open>x\<close>, ties going to the even
  significand: the result of a float operation whose exact result is \<open>x\<close>, and the
  value of a decimal literal \<open>x\<close>. The magnitude is scaled by \<open>2 ^ 1074\<close>, so that the
  smallest subnormal is 1; a scaled magnitude of \<open>k\<close> bits keeps its leading 53 bits,
  and one of at most 53 bits (a subnormal, or the smallest normal binade) is rounded to
  an integer. \<open>b64_magnitude\<close> is this rounding of the scaled magnitude on its own.
\<close>

definition b64_scale :: nat where
  "b64_scale = 1074"

definition b64 :: "real \<Rightarrow> real" where
  "b64 x =
     (let s = \<bar>x\<bar> * 2 ^ b64_scale;
          k = floorlog 2 (nat \<lfloor>s\<rfloor>);
          e = k - 53;
          q = round_half_even (s / 2 ^ e)
      in sgn x * (of_int q * 2 ^ e / 2 ^ b64_scale))"

definition b64_magnitude :: "real \<Rightarrow> real" where
  "b64_magnitude s = (let e = floorlog 2 (nat \<lfloor>s\<rfloor>) - 53
            in of_int (round_half_even (s / 2 ^ e)) * 2 ^ e)"

subsection \<open>Progress adjuster: \<^verbatim>\<open>adjust_calories_based_on_progress\<close>\<close>

text \<open>
  The second component of the result is a dictionary whose keys differ from branch to
  branch, so it is a map from key to Python value.
\<close>

datatype pyval = PyBool bool | PyInt int | PyFloat real | PyStr string

type_synonym adjustment_info = "string \<rightharpoonup> pyval"

definition adjust_calories_based_on_progress ::
  "real \<Rightarrow> real \<Rightarrow> real \<Rightarrow> int \<Rightarrow> session \<Rightarrow> string \<Rightarrow> int \<Rightarrow> real \<times> adjustment_info" where
  "adjust_calories_based_on_progress base_calories current_weight target_weight days_to_goal
       session username current_date =
     (if days_to_goal \<le> 3 then
        (base_calories,
         [''adjusted'' \<mapsto> PyBool False,
          ''reason'' \<mapsto> PyStr ''Within 3 days of target - using standard protocol''])
      else
        (case latest_weight_log session username current_date of
           None \<Rightarrow>
             (base_calories,
              [''adjusted'' \<mapsto> PyBool False,
               ''reason'' \<mapsto> PyStr
                  ''No weight logged yet - log your weight to enable dynamic adjustments'',
               ''needs_weight_log'' \<mapsto> PyBool True])
         | Some latest \<Rightarrow>
             (let actual_weight = wl_weight latest;
                  target_weight_at_this_stage = target_weight * 1.05;
                  weight_difference = actual_weight - target_weight_at_this_stage;
                  (adjustment, adjustment_reason) =
                    (if weight_difference > 1.0 then
                       (- 200 :: int,
                        ''Weight '' @ format_1f weight_difference
                          @ '' lbs above target progression ('' @ format_1f actual_weight
                          @ '' vs '' @ format_1f target_weight_at_this_stage @ '' lbs)'')
                     else if weight_difference < - 1.0 then
                       (200,
                        ''Weight '' @ format_1f \<bar>weight_difference\<bar>
                          @ '' lbs below target progression ('' @ format_1f actual_weight
                          @ '' vs '' @ format_1f target_weight_at_this_stage @ '' lbs)'')
                     else
                       (0,
                        ''Weight on track ('' @ format_1f actual_weight
                          @ '' vs target '' @ format_1f target_weight_at_this_stage
                          @ '' lbs)''));
                  adjusted_calories = base_calories + of_int adjustment
              in (adjusted_calories,
                  [''adjusted'' \<mapsto> PyBool (adjustment \<noteq> 0),
                   ''adjustment'' \<mapsto> PyInt adjustment,
                   ''reason'' \<mapsto> PyStr adjustment_reason,
                   ''actual_weight'' \<mapsto> PyFloat actual_weight,
                   ''target_weight_at_stage'' \<mapsto> PyFloat target_weight_at_this_stage,
                   ''difference'' \<mapsto> PyFloat weight_difference]))))"

subsection \<open>The arithmetic of the three functions in binary64\<close>

text \<open>
  \<^verbatim>\<open>calculate_bmr_and_calories\<close>, \<^verbatim>\<open>calculate_macros\<close> and
  \<^verbatim>\<open>adjust_calories_based_on_progress\<close> once more, line by line as above, with the
  result of every float operation and the value of every decimal literal rounded by
  \<open>b64\<close>. \<^verbatim>\<open>5 * 30\<close> is integer arithmetic, and the integer \<^verbatim>\<open>adjustment\<close> is
  converted exactly before it is added.
\<close>

definition calculate_bmr_and_calories_b64 :: "real \<Rightarrow> real \<Rightarrow> real option \<Rightarrow> real" where
  "calculate_bmr_and_calories_b64 weight height bodyfat_percentage =
     (let height_cm = b64 (height * b64 2.54);
          weight_kg = b64 (weight * b64 0.453592)
      in if bodyfat_known bodyfat_percentage then
           (let lean_body_mass_kg =
                  b64 (weight_kg * b64 (1 - b64 (the bodyfat_percentage / 100)))
            in b64 (370 + b64 (b64 21.6 * lean_body_mass_kg)))
         else b64 (b64 (b64 (b64 (10 * weight_kg) + b64 (b64 6.25 * height_cm)) - (5 * 30)) + 5))"

definition calculate_macros_b64 ::
  "real \<Rightarrow> real \<Rightarrow> real \<Rightarrow> real option \<Rightarrow> real option \<Rightarrow> macros" where
  "calculate_macros_b64 weight target_calories fat_percentage carb_percentage lean_body_mass =
     (let protein_g = (if truthy lean_body_mass then b64 (the lean_body_mass * b64 1.2)
                       else weight);
          protein_cal = b64 (protein_g * 4);
          fat_cal = b64 (target_calories * fat_percentage);
          fat_g = b64 (fat_cal / 9);
          carb_cal = (case carb_percentage of
                        Some c \<Rightarrow> b64 (target_calories * c)
                      | None \<Rightarrow> b64 (b64 (target_calories - protein_cal) - fat_cal));
          carb_g = b64 (carb_cal / 4)
      in \<lparr>protein_grams = protein_g, protein_calories = protein_cal,
          fat_grams = fat_g, fat_calories = fat_cal,
          carb_grams = carb_g, carb_calories = carb_cal\<rparr>)"

definition adjust_calories_based_on_progress_b64 ::
  "real \<Rightarrow> real \<Rightarrow> real \<Rightarrow> int \<Rightarrow> session \<Rightarrow> string \<Rightarrow> int \<Rightarrow> real \<times> adjustment_info" where
  "adjust_calories_based_on_progress_b64 base_calories current_weight target_weight days_to_goal
       session username current_date =
     (if days_to_goal \<le> 3 then
        (base_calories,
         [''adjusted'' \<mapsto> PyBool False,
          ''reason'' \<mapsto> PyStr ''Within 3 days of target - using standard protocol''])
      else
        (case latest_weight_log session username current_date of
           None \<Rightarrow>
             (base_calories,
              [''adjusted'' \<mapsto> PyBool False,
               ''reason'' \<mapsto> PyStr
                  ''No weight logged yet - log your weight to enable dynamic adjustments'',
               ''needs_weight_log'' \<mapsto> PyBool True])
         | Some latest \<Rightarrow>
             (let actual_weight = wl_weight latest;
                  target_weight_at_this_stage = b64 (target_weight * b64 1.05);
                  weight_difference = b64 (actual_weight - target_weight_at_this_stage);
                  (adjustment, adjustment_reason) =
                    (if weight_difference > 1.0 then
                       (- 200 :: int,
                        ''Weight '' @ format_1f weight_difference
                          @ '' lbs above target progression ('' @ format_1f actual_weight
                          @ '' vs '' @ format_1f target_weight_at_this_stage @ '' lbs)'')
                     else if weight_difference < - 1.0 then
                       (200,
                        ''Weight '' @ format_1f \<bar>weight_difference\<bar>
                          @ '' lbs below target progression ('' @ format_1f actual_weight
                          @ '' vs '' @ format_1f target_weight_at_this_stage @ '' lbs)'')
                     else
                       (0,
                        ''Weight on track ('' @ format_1f actual_weight
                          @ '' vs target '' @ format_1f target_weight_at_this_stage
                          @ '' lbs)''));
                  adjusted_calories = b64 (base_calories + of_int adjustment)
              in (adjusted_calories,
                  [''adjusted'' \<mapsto> PyBool (adjustment \<noteq> 0),
                   ''adjustment'' \<mapsto> PyInt adjustment,
                   ''reason'' \<mapsto> PyStr adjustment_reason,
                   ''actual_weight'' \<mapsto> PyFloat actual_weight,
                   ''target_weight_at_stage'' \<mapsto> PyFloat target_weight_at_this_stage,
                   ''difference'' \<mapsto> PyFloat weight_difference]))))"

subsection \<open>Daily plan: the target computation of \<^verbatim>\<open>food_log_page\<close> and \<^verbatim>\<open>profile_page\<close>\<close>

text \<open>
  A row of the table \<^verbatim>\<open>profiles\<close> (the class \<^verbatim>\<open>UserProfile\<close>), fields prefixed
  with \<open>up_\<close>. Only \<^verbatim>\<open>bodyfat_percentage\<close> is nullable.
\<close>

record UserProfile =
  up_username :: string
  up_weight :: real
  up_target_weight :: real
  up_today_date :: int
  up_target_date :: int
  up_bodyfat_percentage :: "real option"
  up_height :: real

text \<open>
  Both pages bind the same local variables before they render; the record \<open>targets\<close>
  collects them (fields prefixed with \<open>t_\<close>).
\<close>

record targets =
  t_bmr :: real
  t_lean_body_mass :: "real option"
  t_days_to_goal :: int
  t_base_calories :: real
  t_fat_pct :: real
  t_target_calories :: real
  t_adjustment_info :: adjustment_info
  t_macros :: macros
  t_micros :: micros

text \<open>
  \<^verbatim>\<open>food_log_page\<close>, from the profile found for the logged-in user to the call of
  \<^verbatim>\<open>calculate_micros\<close>. The evaluation date is \<^verbatim>\<open>st.session_state.current_date\<close>.
\<close>

definition food_log_page_targets :: "UserProfile \<Rightarrow> session \<Rightarrow> string \<Rightarrow> int \<Rightarrow> targets" where
  "food_log_page_targets profile session logged_in_user current_date =
     (let bmr = calculate_bmr_and_calories (up_weight profile) (up_height profile)
                  (up_bodyfat_percentage profile);
          lean_body_mass =
            (if bodyfat_known (up_bodyfat_percentage profile)
             then Some (up_weight profile * (1 - the (up_bodyfat_percentage profile) / 100))
             else None);
          days_to_goal = up_target_date profile - current_date;
          (base_calories, fat_pct) =
            (if days_to_goal = 3 then (bmr * 1.725, 0.25)
             else if days_to_goal = 2 then (bmr * 1.55, 0.35)
             else if days_to_goal = 1 then (bmr * 1.375, 0.45)
             else (bmr * 1.725, 0.25));
          (target_calories, adjustment_info) =
            adjust_calories_based_on_progress base_calories (up_weight profile)
              (up_target_weight profile) days_to_goal session logged_in_user current_date;
          macros = calculate_macros (up_weight profile) target_calories fat_pct None
                     lean_body_mass;
          micros = calculate_micros days_to_goal
      in \<lparr>t_bmr = bmr, t_lean_body_mass = lean_body_mass, t_days_to_goal = days_to_goal,
          t_base_calories = base_calories, t_fat_pct = fat_pct,
          t_target_calories = target_calories, t_adjustment_info = adjustment_info,
          t_macros = macros, t_micros = micros\<rparr>)"

text \<open>
  \<^verbatim>\<open>profile_page\<close>: the same computation on the values of the form, where the body
  fat is always a float and the evaluation date is the form's \<^verbatim>\<open>today_date\<close>. Nothing
  is computed unless \<^verbatim>\<open>weight > 0 and height > 0\<close>.
\<close>

definition profile_page_targets ::
  "real \<Rightarrow> real \<Rightarrow> real \<Rightarrow> int \<Rightarrow> int \<Rightarrow> real \<Rightarrow> session \<Rightarrow> string \<Rightarrow> targets option" where
  "profile_page_targets weight target_weight height today_date target_date bodyfat_percentage
       session logged_in_user =
     (if weight > 0 \<and> height > 0 then
        (let bmr = calculate_bmr_and_calories weight height (Some bodyfat_percentage);
             lean_body_mass =
               (if bodyfat_known (Some bodyfat_percentage)
                then Some (weight * (1 - bodyfat_percentage / 100))
                else None);
             days_to_goal = target_date - today_date;
             (base_calories, fat_pct) =
               (if days_to_goal = 3 then (bmr * 1.725, 0.25)
                else if days_to_goal = 2 then (bmr * 1.55, 0.35)
                else if days_to_goal = 1 then (bmr * 1.375, 0.45)
                else (bmr * 1.725, 0.25));
             (target_calories, adjustment_info) =
               adjust_calories_based_on_progress base_calories weight target_weight
                 days_to_goal session logged_in_user today_date;
             macros = calculate_macros weight target_calories fat_pct None lean_body_mass;
             micros = calculate_micros days_to_goal
         in Some \<lparr>t_bmr = bmr, t_lean_body_mass = lean_body_mass,
                  t_days_to_goal = days_to_goal, t_base_calories = base_calories,
                  t_fat_pct = fat_pct, t_target_calories = target_calories,
                  t_adjustment_info = adjustment_info, t_macros = macros,
                  t_micros = micros\<rparr>)
      else None)"

subsection \<open>The activity tier table of the specification\<close>

text \<open>
  The table of the specification, row by row: a plan \<open>t\<close> is on the row with the given
  multiplier and fat fraction when its base calories are its BMR times the multiplier
  and its fat fraction is the row's. \<open>exact_match_tiers\<close> says that the rows are chosen
  by exact match on the days to the goal, every other value taking the default row.
\<close>

definition tier_row :: "targets \<Rightarrow> real \<Rightarrow> real \<Rightarrow> bool" where
  "tier_row t multiplier fat_fraction =
     (t_base_calories t = t_bmr t * multiplier \<and> t_fat_pct t = fat_fraction)"

definition exact_match_tiers :: "targets \<Rightarrow> bool" where
  "exact_match_tiers t =
     (let d = t_days_to_goal t
      in (d = 3 \<longrightarrow> tier_row t 1.725 0.25) \<and>
         (d = 2 \<longrightarrow> tier_row t 1.55 0.35) \<and>
         (d = 1 \<longrightarrow> tier_row t 1.375 0.45) \<and>
         (d \<noteq> 3 \<and> d \<noteq> 2 \<and> d \<noteq> 1 \<longrightarrow> tier_row t 1.725 0.25))"

section \<open>Properties\<close>

subsection \<open>The weight history query returns the latest entry\<close>

lemma first_row_None_iff: "first_row rows = None \<longleftrightarrow> rows = []"
  by (simp add: first_row_def split: list.splits)

lemma first_row_Some_iff: "first_row rows = Some r \<longleftrightarrow> (\<exists>rest. rows = r # rest)"
  by (simp add: first_row_def split: list.splits)

lemma order_by_log_date_desc_set: "set (order_by_log_date_desc rows) = set rows"
  by (simp add: order_by_log_date_desc_def)

lemma order_by_log_date_desc_head:
  assumes "order_by_log_date_desc rows = r # rest" and "l \<in> set rows"
  shows "wl_log_date l \<le> wl_log_date r"
proof -
  have "sorted (map (\<lambda>l. - wl_log_date l) (order_by_log_date_desc rows))"
    by (simp add: order_by_log_date_desc_def)
  with assms(1) have "\<forall>y\<in>set rest. - wl_log_date r \<le> - wl_log_date y"
    by simp
  moreover from assms have "l = r \<or> l \<in> set rest"
    using order_by_log_date_desc_set [of rows] by auto
  ultimately show ?thesis by auto
qed

lemma order_by_log_date_desc_Nil_iff: "order_by_log_date_desc rows = [] \<longleftrightarrow> rows = []"
  using order_by_log_date_desc_set [of rows] by (metis set_empty)

lemma latest_weight_log_None_iff:
  "latest_weight_log session username current_date = None \<longleftrightarrow>
     (\<forall>l\<in>set session. \<not> (wl_username l = username \<and> wl_log_date l \<le> current_date))"
  by (simp add: latest_weight_log_def first_row_None_iff order_by_log_date_desc_Nil_iff
        filter_empty_conv)

lemma latest_weight_log_Some:
  assumes "latest_weight_log session username current_date = Some r"
  shows "r \<in> set session" and "wl_username r = username" and "wl_log_date r \<le> current_date"
    and "\<And>l. l \<in> set session \<Longrightarrow> wl_username l = username \<Longrightarrow> wl_log_date l \<le> current_date
           \<Longrightarrow> wl_log_date l \<le> wl_log_date r"
proof -
  let ?rows = "filter (\<lambda>l. wl_username l = username \<and> wl_log_date l \<le> current_date) session"
  from assms obtain rest where eq: "order_by_log_date_desc ?rows = r # rest"
    by (auto simp: latest_weight_log_def first_row_Some_iff)
  then have "r \<in> set ?rows"
    using order_by_log_date_desc_set [of ?rows] by auto
  then show "r \<in> set session" and "wl_username r = username" and "wl_log_date r \<le> current_date"
    by auto
  fix l assume "l \<in> set session" "wl_username l = username" "wl_log_date l \<le> current_date"
  then have "l \<in> set ?rows" by simp
  with eq show "wl_log_date l \<le> wl_log_date r"
    by (rule order_by_log_date_desc_head)
qed

subsection \<open>The reason text of the comparison branch\<close>

text \<open>
  The formatting at the values of the specification's example: target weight 150,
  logged weight 159.
\<close>

lemma format_1f_examples:
  "format_1f 157.5 = ''157.5''" "format_1f 159 = ''159.0''" "format_1f 1.5 = ''1.5''"
  "format_1f 0.25 = ''0.2''" "format_1f (- 0.25) = ''-0.2''"
  by (simp_all add: format_1f_def round_half_even_def digit_char_def)

lemma adjust_reason_example:
  "snd (adjust_calories_based_on_progress 2000 180 150 5
          [\<lparr>wl_username = ''u'', wl_log_date = 8, wl_weight = 159, wl_notes = []\<rparr>] ''u'' 10)
     ''reason''
   = Some (PyStr ''Weight 1.5 lbs above target progression (159.0 vs 157.5 lbs)'')"
  by (simp add: adjust_calories_based_on_progress_def latest_weight_log_def
        order_by_log_date_desc_def first_row_def Let_def format_1f_def round_half_even_def
        digit_char_def)

subsection \<open>Rounding to binary64\<close>

text \<open>
  A value whose magnitude, scaled by \<open>2 ^ n\<close>, lies between \<open>2 ^ 52\<close> and \<open>2 ^ 53\<close>
  is rounded at that scale (\<open>b64_scaled\<close>); concrete roundings below are computed
  with this lemma. The rounding error is at most \<open>2 ^ -53\<close> of the magnitude, or
  \<open>2 ^ -1075\<close> among the subnormals (\<open>b64_error\<close>), and rounding keeps the order
  (\<open>b64_mono\<close>).
\<close>

lemma round_half_even_error: "\<bar>of_int (round_half_even x) - x\<bar> \<le> 1 / 2"
proof -
  have "of_int \<lfloor>x\<rfloor> \<le> x" and "x < of_int \<lfloor>x\<rfloor> + 1" by linarith+
  then show ?thesis
    by (auto simp: round_half_even_def Let_def)
qed

lemma floorlog_2_eq:
  assumes "2 ^ k \<le> m" and "m < 2 ^ Suc k"
  shows "floorlog 2 m = Suc k"
proof -
  have "Suc k \<le> floorlog 2 m"
    using assms(1) by (intro floorlog_ge_SucI) simp_all
  moreover have "floorlog 2 m \<le> Suc k"
    using assms(2) by (simp add: floorlog_le_iff)
  ultimately show ?thesis by simp
qed

lemma b64_zero: "b64 0 = 0"
  by (simp add: b64_def)

lemma b64_scaled:
  assumes lo: "2 ^ 52 \<le> \<bar>x\<bar> * 2 ^ n" and hi: "\<bar>x\<bar> * 2 ^ n < 2 ^ 53" and n: "n \<le> b64_scale"
  shows "b64 x = sgn x * (of_int (round_half_even (\<bar>x\<bar> * 2 ^ n)) / 2 ^ n)"
proof -
  define d where "d = b64_scale - n"
  define s where "s = \<bar>x\<bar> * 2 ^ b64_scale"
  have split: "(2::real) ^ b64_scale = 2 ^ n * 2 ^ d"
    using n by (simp add: d_def flip: power_add)
  have s_eq: "s = (\<bar>x\<bar> * 2 ^ n) * 2 ^ d"
    by (simp add: s_def split)
  have s_lo: "2 ^ (52 + d) \<le> s"
    using lo by (simp add: s_eq power_add)
  have s_hi: "s < 2 ^ (53 + d)"
    using hi by (simp add: s_eq power_add)
  have "(2::int) ^ (52 + d) \<le> \<lfloor>s\<rfloor>"
    using s_lo by (simp add: le_floor_iff)
  then have m_lo: "2 ^ (52 + d) \<le> nat \<lfloor>s\<rfloor>"
    by (simp add: le_nat_iff)
  have "\<lfloor>s\<rfloor> < (2::int) ^ (53 + d)"
    using s_hi by (simp add: floor_less_iff)
  then have m_hi: "nat \<lfloor>s\<rfloor> < 2 ^ Suc (52 + d)"
    by (simp add: nat_less_iff)
  have k: "floorlog 2 (nat \<lfloor>s\<rfloor>) = 53 + d"
    using floorlog_2_eq [OF m_lo m_hi] by simp
  have q: "s / 2 ^ d = \<bar>x\<bar> * 2 ^ n"
    by (simp add: s_eq)
  have "b64 x = sgn x * (of_int (round_half_even (s / 2 ^ d)) * 2 ^ d / 2 ^ b64_scale)"
    by (simp add: b64_def Let_def k flip: s_def)
  also have "\<dots> = sgn x * (of_int (round_half_even (\<bar>x\<bar> * 2 ^ n)) / 2 ^ n)"
    by (simp add: q split)
  finally show ?thesis .
qed

lemma b64_error: "\<bar>b64 x - x\<bar> \<le> \<bar>x\<bar> / 2 ^ 53 + 1 / 2 ^ Suc b64_scale"
proof -
  define S :: real where "S = 2 ^ b64_scale"
  define s where "s = \<bar>x\<bar> * S"
  define k where "k = floorlog 2 (nat \<lfloor>s\<rfloor>)"
  define e where "e = k - 53"
  define q where "q = round_half_even (s / 2 ^ e)"
  have S: "S > 0" by (simp add: S_def)
  have s0: "s \<ge> 0" using S by (simp add: s_def)
  have val: "b64 x = sgn x * (of_int q * 2 ^ e / S)"
    by (simp add: b64_def Let_def q_def e_def k_def s_def S_def)
  have x: "x = sgn x * (s / S)"
    using S by (simp add: s_def sgn_mult_abs)
  have "b64 x - x = sgn x * ((of_int q * 2 ^ e - s) / S)"
    by (subst x, subst val) (simp add: algebra_simps diff_divide_distrib)
  then have "\<bar>b64 x - x\<bar> = \<bar>sgn x\<bar> * (\<bar>of_int q * 2 ^ e - s\<bar> / S)"
    using S by (simp add: abs_mult)
  also have "\<dots> \<le> \<bar>of_int q * 2 ^ e - s\<bar> / S"
    using S by (intro mult_left_le_one_le) (simp_all add: abs_sgn_eq)
  finally have step1: "\<bar>b64 x - x\<bar> \<le> \<bar>of_int q * 2 ^ e - s\<bar> / S" .
  have "of_int q * 2 ^ e - s = 2 ^ e * (of_int q - s / 2 ^ e)"
    by (simp add: algebra_simps)
  then have "\<bar>of_int q * 2 ^ e - s\<bar> = 2 ^ e * \<bar>of_int q - s / 2 ^ e\<bar>"
    by (simp add: abs_mult)
  also have "\<dots> \<le> 2 ^ e * (1 / 2)"
    using round_half_even_error [of "s / 2 ^ e"] by (intro mult_left_mono) (simp_all add: q_def)
  finally have step2: "\<bar>of_int q * 2 ^ e - s\<bar> \<le> 2 ^ e / 2" by simp
  have step3: "2 ^ e / 2 \<le> s / 2 ^ 53 + 1 / 2"
  proof (cases "k \<le> 53")
    case True
    then have "e = 0" by (simp add: e_def)
    with s0 show ?thesis by simp
  next
    case False
    then have k: "k = e + 53" by (simp add: e_def)
    then have "nat \<lfloor>s\<rfloor> > 0"
      using floorlog_eq_zero_iff [of 2 "nat \<lfloor>s\<rfloor>"] by (simp add: k_def)
    then have "2 ^ (k - 1) \<le> nat \<lfloor>s\<rfloor>"
      using floorlog_bounds [of "nat \<lfloor>s\<rfloor>" 2] by (simp add: k_def)
    then have "2 ^ (52 + e) \<le> nat \<lfloor>s\<rfloor>"
      by (simp add: k)
    then have "real (2 ^ (52 + e)) \<le> real (nat \<lfloor>s\<rfloor>)"
      by (rule of_nat_mono)
    then have "(2::real) ^ (52 + e) \<le> real (nat \<lfloor>s\<rfloor>)"
      by simp
    also have "\<dots> \<le> s"
      using s0 by simp
    finally have "(2::real) ^ e * 2 ^ 52 \<le> s" by (simp add: power_add)
    then have "2 ^ e / 2 \<le> s / 2 ^ 53" by simp
    then show ?thesis by simp
  qed
  have "\<bar>b64 x - x\<bar> \<le> (s / 2 ^ 53 + 1 / 2) / S"
    using step1 step2 step3 S by (meson divide_right_mono order_less_imp_le order_trans)
  also have "\<dots> = \<bar>x\<bar> / 2 ^ 53 + 1 / 2 ^ Suc b64_scale"
    using S by (simp add: s_def S_def add_divide_distrib)
  finally show ?thesis .
qed

lemma round_half_even_bounds:
  "of_int \<lfloor>x\<rfloor> \<le> (of_int (round_half_even x) :: real)"
  "round_half_even x \<le> \<lfloor>x\<rfloor> + 1"
  by (auto simp: round_half_even_def Let_def)

lemma round_half_even_of_int: "round_half_even (of_int z) = z"
  by (simp add: round_half_even_def)

lemma round_half_even_mono:
  assumes "x \<le> y"
  shows "round_half_even x \<le> round_half_even y"
proof (cases "\<lfloor>x\<rfloor> = \<lfloor>y\<rfloor>")
  case True
  with assms show ?thesis
    by (auto simp: round_half_even_def Let_def)
next
  case False
  with assms have "\<lfloor>x\<rfloor> + 1 \<le> \<lfloor>y\<rfloor>"
    using floor_mono [of x y] by linarith
  moreover have "round_half_even x \<le> \<lfloor>x\<rfloor> + 1" by (rule round_half_even_bounds)
  moreover have "\<lfloor>y\<rfloor> \<le> round_half_even y"
    using round_half_even_bounds(1) [of y] by simp
  ultimately show ?thesis by linarith
qed

lemma b64_magnitude_eq: "b64 x = sgn x * (b64_magnitude (\<bar>x\<bar> * 2 ^ b64_scale) / 2 ^ b64_scale)"
  by (simp add: b64_def b64_magnitude_def Let_def)

lemma b64_magnitude_nonneg:
  assumes "0 \<le> s"
  shows "0 \<le> b64_magnitude s"
proof -
  have "0 \<le> s / 2 ^ (floorlog 2 (nat \<lfloor>s\<rfloor>) - 53)"
    using assms by simp
  then have "round_half_even 0 \<le> round_half_even (s / 2 ^ (floorlog 2 (nat \<lfloor>s\<rfloor>) - 53))"
    by (rule round_half_even_mono)
  then show ?thesis
    by (simp add: b64_magnitude_def Let_def round_half_even_def)
qed

lemma b64_magnitude_mono:
  assumes "0 \<le> s" and "s \<le> t"
  shows "b64_magnitude s \<le> b64_magnitude t"
proof -
  define ks where "ks = floorlog 2 (nat \<lfloor>s\<rfloor>)"
  define kt where "kt = floorlog 2 (nat \<lfloor>t\<rfloor>)"
  define es where "es = ks - 53"
  define et where "et = kt - 53"
  have t0: "0 \<le> t" using assms by simp
  have "nat \<lfloor>s\<rfloor> \<le> nat \<lfloor>t\<rfloor>"
    using assms(2) by (simp add: floor_mono nat_mono)
  then have k: "ks \<le> kt"
    unfolding ks_def kt_def by (rule floorlog_mono)
  then have e: "es \<le> et" by (simp add: es_def et_def)
  have ms: "b64_magnitude s = of_int (round_half_even (s / 2 ^ es)) * 2 ^ es"
    by (simp add: b64_magnitude_def Let_def es_def ks_def)
  have mt: "b64_magnitude t = of_int (round_half_even (t / 2 ^ et)) * 2 ^ et"
    by (simp add: b64_magnitude_def Let_def et_def kt_def)
  show ?thesis
  proof (cases "es = et")
    case True
    have "s / 2 ^ et \<le> t / 2 ^ et"
      using assms(2) by (simp add: divide_right_mono)
    then have "round_half_even (s / 2 ^ et) \<le> round_half_even (t / 2 ^ et)"
      by (rule round_half_even_mono)
    then show ?thesis
      by (simp add: ms mt True)
  next
    case False
    with e have lt: "es < et" by simp
    then have kt: "kt = et + 53" by (simp add: et_def)
    have ks: "ks \<le> es + 53" by (simp add: es_def)
    \<comment> \<open>the smaller value rounds to at most \<open>2 ^ (es + 53)\<close>\<close>
    have "nat \<lfloor>s\<rfloor> < 2 ^ (es + 53)"
      using ks floorlog_leD [of 2 "nat \<lfloor>s\<rfloor>" "es + 53"] by (simp add: ks_def)
    then have "\<lfloor>s\<rfloor> < 2 ^ (es + 53)"
      by (simp add: nat_less_iff)
    then have "s < 2 ^ (es + 53)"
      by (simp add: floor_less_iff)
    then have "s / 2 ^ es \<le> of_int (2 ^ 53)"
      by (simp add: power_add field_simps)
    then have "round_half_even (s / 2 ^ es) \<le> round_half_even (of_int (2 ^ 53))"
      by (rule round_half_even_mono)
    then have "round_half_even (s / 2 ^ es) \<le> 2 ^ 53"
      by (simp only: round_half_even_of_int)
    then have "(of_int (round_half_even (s / 2 ^ es)) :: real) \<le> of_int (2 ^ 53)"
      by (simp only: of_int_le_iff)
    then have "b64_magnitude s \<le> 2 ^ 53 * 2 ^ es"
      by (simp add: ms)
    also have "\<dots> = 2 ^ (es + 53)"
      by (simp add: power_add)
    also have "\<dots> \<le> (2::real) ^ (et + 52)"
      using lt by (intro power_increasing) simp_all
    \<comment> \<open>the larger value rounds to at least \<open>2 ^ (et + 52)\<close>\<close>
    also have "\<dots> \<le> b64_magnitude t"
    proof -
      have "nat \<lfloor>t\<rfloor> > 0"
        using kt floorlog_eq_zero_iff [of 2 "nat \<lfloor>t\<rfloor>"] by (simp add: kt_def)
      then have "2 ^ (kt - 1) \<le> nat \<lfloor>t\<rfloor>"
        using floorlog_bounds [of "nat \<lfloor>t\<rfloor>" 2] by (simp add: kt_def)
      then have "2 ^ (52 + et) \<le> nat \<lfloor>t\<rfloor>"
        by (simp add: kt)
      then have "real (2 ^ (52 + et)) \<le> real (nat \<lfloor>t\<rfloor>)"
        by (rule of_nat_mono)
      then have "(2::real) ^ (52 + et) \<le> real (nat \<lfloor>t\<rfloor>)"
        by simp
      also have "\<dots> \<le> t"
        using t0 by simp
      finally have "of_int (2 ^ 52) \<le> t / 2 ^ et"
        by (simp add: power_add field_simps)
      then have "round_half_even (of_int (2 ^ 52)) \<le> round_half_even (t / 2 ^ et)"
        by (rule round_half_even_mono)
      then have "2 ^ 52 \<le> round_half_even (t / 2 ^ et)"
        by (simp only: round_half_even_of_int)
      then have "(of_int (2 ^ 52) :: real) \<le> of_int (round_half_even (t / 2 ^ et))"
        by (simp only: of_int_le_iff)
      then have "2 ^ 52 * 2 ^ et \<le> b64_magnitude t"
        by (simp add: mt)
      then show ?thesis
        by (simp add: power_add mult.commute)
    qed
    finally show ?thesis .
  qed
qed

lemma b64_mono:
  assumes "x \<le> y"
  shows "b64 x \<le> b64 y"
proof -
  define S :: real where "S = 2 ^ b64_scale"
  define A where "A z = b64_magnitude (\<bar>z\<bar> * S) / S" for z
  have S: "S > 0" by (simp add: S_def)
  have val: "b64 z = sgn z * A z" for z
    by (simp add: b64_magnitude_eq S_def A_def)
  have nn: "0 \<le> A z" for z
    using S b64_magnitude_nonneg [of "\<bar>z\<bar> * S"] by (simp add: A_def)
  have mono: "A u \<le> A v" if "\<bar>u\<bar> \<le> \<bar>v\<bar>" for u v
  proof -
    from that S have "\<bar>u\<bar> * S \<le> \<bar>v\<bar> * S"
      by (simp add: mult_right_mono)
    moreover have "0 \<le> \<bar>u\<bar> * S"
      using S by simp
    ultimately have "b64_magnitude (\<bar>u\<bar> * S) \<le> b64_magnitude (\<bar>v\<bar> * S)"
      by (intro b64_magnitude_mono)
    then show ?thesis
      using S by (simp add: A_def divide_right_mono)
  qed
  have pos: "b64 z = A z" if "0 < z" for z
    using that by (simp add: val)
  have neg: "b64 z = - A z" if "z < 0" for z
    using that by (simp add: val)
  have zero: "b64 0 = 0"
    by (simp add: val)
  consider "x < 0" "y < 0" | "x < 0" "y = 0" | "x < 0" "0 < y" | "x = 0" "y = 0"
    | "x = 0" "0 < y" | "0 < x" "0 < y"
    using assms by linarith
  then show ?thesis
  proof cases
    case 1
    with assms have "A y \<le> A x" by (intro mono) simp
    with 1 show ?thesis by (simp add: neg)
  next
    case 2
    with nn [of x] show ?thesis by (simp add: neg zero)
  next
    case 3
    with nn [of x] nn [of y] show ?thesis by (simp add: neg pos)
  next
    case 4
    then show ?thesis by simp
  next
    case 5
    with nn [of y] show ?thesis by (simp add: zero pos)
  next
    case 6
    with assms have "A x \<le> A y" by (intro mono) simp
    with 6 show ?thesis by (simp add: pos)
  qed
qed

lemma b64_nonneg: "0 \<le> x \<Longrightarrow> 0 \<le> b64 x"
  using b64_mono [of 0 x] by (simp add: b64_zero)

lemma b64_one: "b64 1 = 1"
  using b64_scaled [of 1 52] by (simp add: round_half_even_def b64_scale_def)

text \<open>
  The formatting of binary64 values: the float nearest to 0.35 lies below 0.35 and
  prints as 0.3, the float nearest to 160.35 prints as 160.3.
\<close>

lemma format_1f_b64_examples:
  "format_1f (b64 0.35) = ''0.3''" "format_1f (b64 160.35) = ''160.3''"
  "format_1f (b64 106.1) = ''106.1''"
proof -
  have v035: "b64 (7 / 20) = 3152519739159347 / 9007199254740992"
    using b64_scaled [of "7 / 20" 54] by (simp add: round_half_even_def b64_scale_def)
  have v16035: "b64 (3207 / 20) = 5641814064444211 / 35184372088832"
    using b64_scaled [of "3207 / 20" 45] by (simp add: round_half_even_def b64_scale_def)
  have v1061: "b64 (1061 / 10) = 3733061878625075 / 35184372088832"
    using b64_scaled [of "1061 / 10" 46] by (simp add: round_half_even_def b64_scale_def)
  show "format_1f (b64 0.35) = ''0.3''" "format_1f (b64 160.35) = ''160.3''"
    "format_1f (b64 106.1) = ''106.1''"
    by (simp_all add: v035 v16035 v1061 format_1f_def round_half_even_def digit_char_def)
qed

subsection \<open>BMR estimator\<close>

text \<open>
  Claim C4. With a body fat percentage that is present and positive the BMR is the
  Katch-McArdle value \<open>370 + 21.6 \<times> (weight \<times> 0.453592 \<times> (1 - body_fat / 100))\<close>; with
  the percentage absent or zero (or, outside the documented range, negative) it is the
  Mifflin-St Jeor value
  \<open>10 \<times> (weight \<times> 0.453592) + 6.25 \<times> (height \<times> 2.54) - 5 \<times> 30 + 5\<close>. This holds for
  every weight and height, in particular for the positive ones.
\<close>

theorem bmr_formulas:
  "(b > 0 \<longrightarrow>
      calculate_bmr_and_calories weight height (Some b)
        = 370 + 21.6 * (weight * 0.453592 * (1 - b / 100))) \<and>
   (bodyfat_percentage = None \<or> (\<exists>z. bodyfat_percentage = Some z \<and> z \<le> 0) \<longrightarrow>
      calculate_bmr_and_calories weight height bodyfat_percentage
        = 10 * (weight * 0.453592) + 6.25 * (height * 2.54) - 5 * 30 + 5)"
  by (auto simp: calculate_bmr_and_calories_def bodyfat_known_def truthy_def)

theorem bmr_formulas_witness:
  "(20::real) > 0 \<and>
   calculate_bmr_and_calories 180 70 (Some 20) = 370 + 21.6 * (180 * 0.453592 * (1 - 20 / 100)) \<and>
   calculate_bmr_and_calories 180 70 (Some 20) = 1780.8525568 \<and>
   calculate_bmr_and_calories 180 70 None = 10 * (180 * 0.453592) + 6.25 * (70 * 2.54) - 5 * 30 + 5 \<and>
   calculate_bmr_and_calories 180 70 (Some 0) = 1782.7156"
  using bmr_formulas [of 20 180 70 None] bmr_formulas [of 20 180 70 "Some 0"]
  by simp

subsection \<open>Macro allocator\<close>

text \<open>
  In exact arithmetic the carbohydrate calories are the remainder of the target, so the
  three calorie values add up to it, also where the remainder is negative.
\<close>

lemma macros_remainder_exact:
  "let m = calculate_macros weight target_calories fat_fraction None lean_body_mass
   in protein_calories m + fat_calories m + carb_calories m = target_calories \<and>
      carb_calories m = target_calories - protein_calories m - fat_calories m \<and>
      protein_calories m = protein_grams m * 4 \<and>
      fat_grams m = fat_calories m / 9 \<and>
      carb_grams m = carb_calories m / 4"
  by (simp add: calculate_macros_def Let_def)

lemma macros_negative_carbs:
  "carb_calories (calculate_macros 200 500 0.25 None None) = - 425 \<and>
   protein_calories (calculate_macros 200 500 0.25 None None)
     + fat_calories (calculate_macros 200 500 0.25 None None)
     + carb_calories (calculate_macros 200 500 0.25 None None) = 500"
  by (simp add: calculate_macros_def Let_def truthy_def)

text \<open>
  In binary64 the remainder is the result of two rounded subtractions. The three values
  still add up to the target where every intermediate result is a binary64 value, as at
  weight 200, target 500 and fat fraction 0.25, where the carbohydrate calories are
  negative.
\<close>

lemma macros_negative_carbs_b64:
  "carb_calories (calculate_macros_b64 200 500 0.25 None None) = - 425 \<and>
   protein_calories (calculate_macros_b64 200 500 0.25 None None)
     + fat_calories (calculate_macros_b64 200 500 0.25 None None)
     + carb_calories (calculate_macros_b64 200 500 0.25 None None) = 500"
proof -
  have n800: "b64 (800) = 800"
    using b64_scaled [of "800" 43] by (simp add: round_half_even_def b64_scale_def)
  have n125: "b64 (125) = 125"
    using b64_scaled [of "125" 46] by (simp add: round_half_even_def b64_scale_def)
  have n300: "b64 (- 300) = - 300"
    using b64_scaled [of "- 300" 44] by (simp add: round_half_even_def b64_scale_def)
  have n425: "b64 (- 425) = - 425"
    using b64_scaled [of "- 425" 44] by (simp add: round_half_even_def b64_scale_def)
  show ?thesis
    by (simp add: calculate_macros_b64_def Let_def truthy_def n800 n125 n300 n425)
qed

lemma remainder_rounding:
  fixes t p f :: real
  defines "a \<equiv> b64 (t - p)"
  defines "c \<equiv> b64 (a - f)"
  shows "\<bar>p + f + c - t\<bar> \<le> (\<bar>t\<bar> + \<bar>p\<bar> + \<bar>f\<bar>) / 2 ^ 51 + 2 / 2 ^ b64_scale"
proof -
  define E :: real where "E = 1 / 2 ^ Suc b64_scale"
  define U where "U = \<bar>t - p\<bar>"
  define V where "V = \<bar>a - f\<bar>"
  define M where "M = \<bar>t\<bar> + \<bar>p\<bar> + \<bar>f\<bar>"
  have E: "E \<ge> 0" by (simp add: E_def)
  have E4: "2 / 2 ^ b64_scale = 4 * E" by (simp add: E_def)
  have U: "0 \<le> U" "U \<le> M - \<bar>f\<bar>" by (simp_all add: U_def M_def)
  have M: "0 \<le> M" "\<bar>f\<bar> \<le> M" by (simp_all add: M_def)
  have e1: "\<bar>a - (t - p)\<bar> \<le> U / 2 ^ 53 + E"
    unfolding a_def E_def U_def by (rule b64_error)
  have e2: "\<bar>c - (a - f)\<bar> \<le> V / 2 ^ 53 + E"
    unfolding c_def E_def V_def by (rule b64_error)
  have "U / 2 ^ 53 \<le> U"
    using U(1) by (simp add: field_simps)
  with e1 have d1: "\<bar>a - (t - p)\<bar> \<le> U + E" by simp
  have "\<bar>a\<bar> \<le> \<bar>t - p\<bar> + \<bar>a - (t - p)\<bar>" by simp
  with d1 have a: "\<bar>a\<bar> \<le> 2 * U + E" by (simp add: U_def)
  have "V \<le> \<bar>a\<bar> + \<bar>f\<bar>" by (simp add: V_def)
  with a have V: "V \<le> 2 * U + \<bar>f\<bar> + E" by simp
  have "V + U \<le> 3 * M + E"
    using V U(2) M by simp
  also have "\<dots> \<le> 4 * M + 2 ^ 53 * (2 * E)"
  proof -
    have "E \<le> 2 ^ 53 * (2 * E)" using E by simp
    with M(1) show ?thesis by simp
  qed
  finally have "(V + U) / 2 ^ 53 \<le> (4 * M + 2 ^ 53 * (2 * E)) / 2 ^ 53"
    by (rule divide_right_mono) simp
  also have "\<dots> = M / 2 ^ 51 + 2 * E"
    by (simp add: add_divide_distrib)
  finally have sum: "V / 2 ^ 53 + U / 2 ^ 53 \<le> M / 2 ^ 51 + 2 * E"
    by (simp add: add_divide_distrib)
  have "p + f + c - t = (c - (a - f)) + (a - (t - p))" by simp
  then have "\<bar>p + f + c - t\<bar> \<le> \<bar>c - (a - f)\<bar> + \<bar>a - (t - p)\<bar>"
    by (simp only: abs_triangle_ineq)
  also have "\<dots> \<le> (V / 2 ^ 53 + E) + (U / 2 ^ 53 + E)"
    using e1 e2 by (rule add_mono [rotated])
  also have "\<dots> \<le> M / 2 ^ 51 + 4 * E"
    using sum by simp
  finally show ?thesis
    by (simp add: E4 M_def)
qed

text \<open>
  Claim C6 says that the protein, fat and carbohydrate calories add up to the target
  calories exactly, for all valid inputs. The program computes in binary64, and there
  they do not: for the weight 210.6, the target 2037.1 and the fat fraction 0.45 the
  three values returned add up to the target less \<open>2 ^ -43\<close>, and added as floats
  they give the target less \<open>2 ^ -42\<close>, which prints as 2037.0999999999997.
\<close>

theorem macros_remainder_counterexample:
  "protein_calories (calculate_macros_b64 (b64 210.6) (b64 2037.1) (b64 0.45) None None)
     + fat_calories (calculate_macros_b64 (b64 210.6) (b64 2037.1) (b64 0.45) None None)
     + carb_calories (calculate_macros_b64 (b64 210.6) (b64 2037.1) (b64 0.45) None None)
   = b64 2037.1 - 1 / 2 ^ 43 \<and>
   b64 (b64 (protein_calories (calculate_macros_b64 (b64 210.6) (b64 2037.1) (b64 0.45) None None)
               + fat_calories (calculate_macros_b64 (b64 210.6) (b64 2037.1) (b64 0.45) None None))
          + carb_calories (calculate_macros_b64 (b64 210.6) (b64 2037.1) (b64 0.45) None None))
   = b64 2037.1 - 1 / 2 ^ 42"
proof -
  have w: "b64 (210.6) = 7409828761908019 / 35184372088832"
    using b64_scaled [of "210.6" 45] by (simp add: round_half_even_def b64_scale_def)
  have t: "b64 (2037.1) = 4479630273884979 / 2199023255552"
    using b64_scaled [of "2037.1" 42] by (simp add: round_half_even_def b64_scale_def)
  have r: "b64 (0.45) = 8106479329266893 / 18014398509481984"
    using b64_scaled [of "0.45" 54] by (simp add: round_half_even_def b64_scale_def)
  have p: "b64 (b64 210.6 * 4) = 7409828761908019 / 8796093022208"
    unfolding w
    using b64_scaled [of "(7409828761908019 / 35184372088832) * 4" 43] by (simp add: round_half_even_def b64_scale_def)
  have f: "b64 (b64 2037.1 * b64 0.45) = 4031667246496481 / 4398046511104"
    unfolding t r
    using b64_scaled [of "(4479630273884979 / 2199023255552) * (8106479329266893 / 18014398509481984)" 43] by (simp add: round_half_even_def b64_scale_def)
  have a: "b64 (b64 2037.1 - (7409828761908019 / 8796093022208)) = 1313586541703987 / 1099511627776"
    unfolding t
    using b64_scaled [of "(4479630273884979 / 2199023255552) - (7409828761908019 / 8796093022208)" 42] by (simp add: round_half_even_def b64_scale_def)
  have c: "b64 ((1313586541703987 / 1099511627776) - (4031667246496481 / 4398046511104)) = 1222678920319467 / 4398046511104"
    using b64_scaled [of "(1313586541703987 / 1099511627776) - (4031667246496481 / 4398046511104)" 44] by (simp add: round_half_even_def b64_scale_def)
  have s1: "b64 ((7409828761908019 / 8796093022208) + (4031667246496481 / 4398046511104)) = 3868290813725245 / 2199023255552"
    using b64_scaled [of "(7409828761908019 / 8796093022208) + (4031667246496481 / 4398046511104)" 42] by (simp add: round_half_even_def b64_scale_def)
  have s2: "b64 ((3868290813725245 / 2199023255552) + (1222678920319467 / 4398046511104)) = 8959260547769957 / 4398046511104"
    using b64_scaled [of "(3868290813725245 / 2199023255552) + (1222678920319467 / 4398046511104)" 42] by (simp add: round_half_even_def b64_scale_def)
  have pc: "protein_calories (calculate_macros_b64 (b64 210.6) (b64 2037.1) (b64 0.45) None None) = 7409828761908019 / 8796093022208"
    unfolding calculate_macros_b64_def Let_def truthy_def option.case if_False p by simp
  have fc: "fat_calories (calculate_macros_b64 (b64 210.6) (b64 2037.1) (b64 0.45) None None) = 4031667246496481 / 4398046511104"
    unfolding calculate_macros_b64_def Let_def f by simp
  have cc: "carb_calories (calculate_macros_b64 (b64 210.6) (b64 2037.1) (b64 0.45) None None) = 1222678920319467 / 4398046511104"
    unfolding calculate_macros_b64_def Let_def truthy_def option.case if_False p f a c by simp
  show ?thesis
    unfolding pc fc cc unfolding s1 s2 unfolding t by simp
qed

text \<open>
  Claim C6, amended. Called as the two pages call it (no \<^verbatim>\<open>carb_percentage\<close>), the
  allocator returns as carbohydrate calories the remainder of the target after the
  protein and the fat calories, computed by two binary64 subtractions and neither
  clamped nor rounded by the allocator, so it is negative where protein and fat exceed
  the target. The three calorie values add up to the target up to the rounding of these
  two subtractions: the difference is at most \<open>2 ^ -51\<close> times the sum of the
  magnitudes of the target, the protein and the fat calories, plus \<open>2 ^ -1073\<close>. The
  grams are the calories divided by the fixed constants, the protein calories four
  times the protein grams.
\<close>

theorem macros_remainder_b64:
  "let m = calculate_macros_b64 weight target_calories fat_fraction None lean_body_mass
   in carb_calories m
        = b64 (b64 (target_calories - protein_calories m) - fat_calories m) \<and>
      \<bar>protein_calories m + fat_calories m + carb_calories m - target_calories\<bar>
        \<le> (\<bar>target_calories\<bar> + \<bar>protein_calories m\<bar> + \<bar>fat_calories m\<bar>) / 2 ^ 51
            + 2 / 2 ^ b64_scale \<and>
      protein_calories m = b64 (protein_grams m * 4) \<and>
      fat_grams m = b64 (fat_calories m / 9) \<and>
      carb_grams m = b64 (carb_calories m / 4)"
  using remainder_rounding
  by (simp add: calculate_macros_b64_def Let_def)

subsection \<open>Progress adjuster\<close>

text \<open>
  Claim C10. Two calls of the progress adjuster that differ only in the argument
  \<^verbatim>\<open>current_weight\<close> return the same calories and the same adjustment info: the
  profile's stated weight is never read, not even when no weight is logged.
\<close>

theorem adjuster_ignores_current_weight:
  "adjust_calories_based_on_progress base_calories current_weight target_weight days_to_goal
     session username current_date
   = adjust_calories_based_on_progress base_calories current_weight' target_weight days_to_goal
       session username current_date"
  by (simp add: adjust_calories_based_on_progress_def)

text \<open>
  Claim C2. With at most three days to the goal the progress adjuster returns the base
  calories unchanged and \<^verbatim>\<open>adjusted = False\<close>, and the result is the same for every
  weight history.
\<close>

theorem adjuster_within_three_days:
  assumes "days_to_goal \<le> 3"
  shows "fst (adjust_calories_based_on_progress base_calories current_weight target_weight
                days_to_goal session username current_date) = base_calories \<and>
         snd (adjust_calories_based_on_progress base_calories current_weight target_weight
                days_to_goal session username current_date) ''adjusted'' = Some (PyBool False) \<and>
         adjust_calories_based_on_progress base_calories current_weight target_weight
                days_to_goal session username current_date
         = adjust_calories_based_on_progress base_calories current_weight target_weight
                days_to_goal session' username current_date"
  using assms by (simp add: adjust_calories_based_on_progress_def)

theorem adjuster_within_three_days_witness:
  "(2::int) \<le> 3 \<and>
   fst (adjust_calories_based_on_progress 2000 180 150 2
          [\<lparr>wl_username = ''u'', wl_log_date = 3, wl_weight = 159, wl_notes = []\<rparr>] ''u'' 10) = 2000 \<and>
   snd (adjust_calories_based_on_progress 2000 180 150 2
          [\<lparr>wl_username = ''u'', wl_log_date = 3, wl_weight = 159, wl_notes = []\<rparr>] ''u'' 10)
     ''adjusted'' = Some (PyBool False)"
proof -
  have h: "(2::int) \<le> 3" by simp
  from adjuster_within_three_days [OF h] show ?thesis by simp
qed

text \<open>
  Claim C3. More than three days from the goal, when the user has no weight entry dated
  on or before the evaluation date, the progress adjuster returns a value (it does not
  fail): the base calories unchanged, \<^verbatim>\<open>adjusted = False\<close>,
  \<^verbatim>\<open>needs_weight_log = True\<close> and a reason saying that logging the weight enables
  the adjustment.
\<close>

theorem adjuster_no_weight_history:
  assumes "days_to_goal > 3"
    and "\<forall>l\<in>set session. \<not> (wl_username l = username \<and> wl_log_date l \<le> current_date)"
  shows "adjust_calories_based_on_progress base_calories current_weight target_weight
           days_to_goal session username current_date
         = (base_calories,
            [''adjusted'' \<mapsto> PyBool False,
             ''reason'' \<mapsto> PyStr
                ''No weight logged yet - log your weight to enable dynamic adjustments'',
             ''needs_weight_log'' \<mapsto> PyBool True])"
proof -
  from assms(2) have "latest_weight_log session username current_date = None"
    by (simp only: latest_weight_log_None_iff)
  with assms(1) show ?thesis
    by (simp add: adjust_calories_based_on_progress_def)
qed

theorem adjuster_no_weight_history_witness:
  "(5::int) > 3 \<and>
   \<not> (\<exists>l\<in>set [\<lparr>wl_username = ''u'', wl_log_date = 11, wl_weight = 159, wl_notes = []\<rparr>,
                \<lparr>wl_username = ''v'', wl_log_date = 3, wl_weight = 140, wl_notes = []\<rparr>].
        wl_username l = ''u'' \<and> wl_log_date l \<le> 10) \<and>
   fst (adjust_calories_based_on_progress 2000 180 150 5
          [\<lparr>wl_username = ''u'', wl_log_date = 11, wl_weight = 159, wl_notes = []\<rparr>,
           \<lparr>wl_username = ''v'', wl_log_date = 3, wl_weight = 140, wl_notes = []\<rparr>] ''u'' 10) = 2000 \<and>
   snd (adjust_calories_based_on_progress 2000 180 150 5
          [\<lparr>wl_username = ''u'', wl_log_date = 11, wl_weight = 159, wl_notes = []\<rparr>,
           \<lparr>wl_username = ''v'', wl_log_date = 3, wl_weight = 140, wl_notes = []\<rparr>] ''u'' 10)
      ''needs_weight_log'' = Some (PyBool True)"
proof -
  let ?s = "[\<lparr>wl_username = ''u'', wl_log_date = 11, wl_weight = 159, wl_notes = []\<rparr>,
             \<lparr>wl_username = ''v'', wl_log_date = 3, wl_weight = 140, wl_notes = []\<rparr>]"
  have h1: "(5::int) > 3" by simp
  have h2: "\<forall>l\<in>set ?s. \<not> (wl_username l = ''u'' \<and> wl_log_date l \<le> 10)" by simp
  from adjuster_no_weight_history [OF h1 h2] h1 h2 show ?thesis by simp
qed

text \<open>
  The binary64 embedding of the adjuster differs from the exact one in the comparison
  branch only.
\<close>

lemma adjust_b64_agrees:
  assumes "days_to_goal \<le> 3 \<or> latest_weight_log session username current_date = None"
  shows "adjust_calories_based_on_progress_b64 base_calories current_weight target_weight
           days_to_goal session username current_date
         = adjust_calories_based_on_progress base_calories current_weight target_weight
             days_to_goal session username current_date"
  using assms
  by (auto simp: adjust_calories_based_on_progress_b64_def adjust_calories_based_on_progress_def)

text \<open>
  Claim C1. More than three days from the goal, when the user has a weight entry dated
  on or before the evaluation date, the query returns the latest such entry. The
  adjuster computes \<open>expected\<close> as the target weight times 1.05 and \<open>diff\<close> as the
  latest logged weight minus \<open>expected\<close>, both in binary64, and stores them in the
  adjustment info. It returns the base calories minus 200 with \<^verbatim>\<open>adjusted = True\<close>
  when \<open>diff > 1.0\<close>, the base calories plus 200 with \<^verbatim>\<open>adjusted = True\<close> when
  \<open>diff < -1.0\<close>, and the base calories unchanged with \<^verbatim>\<open>adjusted = False\<close>
  otherwise, \<open>diff\<close> exactly 1.0 or -1.0 included. The base calories are a binary64
  value.
\<close>

theorem adjuster_comparison_b64:
  assumes "days_to_goal > 3"
    and "l \<in> set session" and "wl_username l = username" and "wl_log_date l \<le> current_date"
    and "b64 base_calories = base_calories"
  shows "\<exists>latest.
           latest_weight_log session username current_date = Some latest \<and>
           latest \<in> set session \<and> wl_username latest = username \<and>
           wl_log_date latest \<le> current_date \<and>
           (\<forall>l'\<in>set session. wl_username l' = username \<and> wl_log_date l' \<le> current_date
               \<longrightarrow> wl_log_date l' \<le> wl_log_date latest) \<and>
           (let expected = b64 (target_weight * b64 1.05);
                diff = b64 (wl_weight latest - expected);
                (calories, info) =
                   adjust_calories_based_on_progress_b64 base_calories current_weight
                     target_weight days_to_goal session username current_date
            in info ''actual_weight'' = Some (PyFloat (wl_weight latest)) \<and>
               info ''target_weight_at_stage'' = Some (PyFloat expected) \<and>
               info ''difference'' = Some (PyFloat diff) \<and>
               (diff > 1.0 \<longrightarrow>
                  calories = b64 (base_calories - 200) \<and>
                  info ''adjusted'' = Some (PyBool True)) \<and>
               (diff < - 1.0 \<longrightarrow>
                  calories = b64 (base_calories + 200) \<and>
                  info ''adjusted'' = Some (PyBool True)) \<and>
               (- 1.0 \<le> diff \<and> diff \<le> 1.0 \<longrightarrow>
                  calories = base_calories \<and> info ''adjusted'' = Some (PyBool False)))"
proof -
  from assms(2-4) have "latest_weight_log session username current_date \<noteq> None"
    unfolding latest_weight_log_None_iff by blast
  then obtain latest where latest: "latest_weight_log session username current_date = Some latest"
    by blast
  note facts = latest_weight_log_Some [OF latest]
  have max: "\<forall>l'\<in>set session. wl_username l' = username \<and> wl_log_date l' \<le> current_date
               \<longrightarrow> wl_log_date l' \<le> wl_log_date latest"
    using facts(4) by blast
  have res: "(let expected = b64 (target_weight * b64 1.05);
                diff = b64 (wl_weight latest - expected);
                (calories, info) =
                   adjust_calories_based_on_progress_b64 base_calories current_weight
                     target_weight days_to_goal session username current_date
            in info ''actual_weight'' = Some (PyFloat (wl_weight latest)) \<and>
               info ''target_weight_at_stage'' = Some (PyFloat expected) \<and>
               info ''difference'' = Some (PyFloat diff) \<and>
               (diff > 1.0 \<longrightarrow>
                  calories = b64 (base_calories - 200) \<and>
                  info ''adjusted'' = Some (PyBool True)) \<and>
               (diff < - 1.0 \<longrightarrow>
                  calories = b64 (base_calories + 200) \<and>
                  info ''adjusted'' = Some (PyBool True)) \<and>
               (- 1.0 \<le> diff \<and> diff \<le> 1.0 \<longrightarrow>
                  calories = base_calories \<and> info ''adjusted'' = Some (PyBool False)))"
    using assms(1,5) latest
    by (simp add: adjust_calories_based_on_progress_b64_def Let_def split_beta)
  from latest facts(1-3) max res show ?thesis by blast
qed

text \<open>
  The theorem at three inputs, base calories 2000. Target 102 and logged weight 106.1:
  the product rounds to 107.10000000000001 and the difference to -1.0000000000000142,
  below the band, so 200 are added. Target 104 and logged weight 110.2: the difference
  is exactly 1.0, inside the band. Target 150 and logged weight 159: the difference is
  1.5, so 200 are taken off.
\<close>

theorem adjuster_comparison_b64_witness:
  "(5::int) > 3 \<and> b64 2000 = 2000 \<and>
   fst (adjust_calories_based_on_progress_b64 2000 180 102 5
          [\<lparr>wl_username = ''u'', wl_log_date = 8, wl_weight = b64 106.1, wl_notes = []\<rparr>] ''u'' 10) = 2200 \<and>
   snd (adjust_calories_based_on_progress_b64 2000 180 102 5
          [\<lparr>wl_username = ''u'', wl_log_date = 8, wl_weight = b64 106.1, wl_notes = []\<rparr>] ''u'' 10)
     ''adjusted'' = Some (PyBool True) \<and>
   snd (adjust_calories_based_on_progress_b64 2000 180 102 5
          [\<lparr>wl_username = ''u'', wl_log_date = 8, wl_weight = b64 106.1, wl_notes = []\<rparr>] ''u'' 10)
     ''difference'' = Some (PyFloat (- (70368744177665 / 70368744177664))) \<and>
   fst (adjust_calories_based_on_progress_b64 2000 180 104 5
          [\<lparr>wl_username = ''u'', wl_log_date = 8, wl_weight = b64 110.2, wl_notes = []\<rparr>] ''u'' 10) = 2000 \<and>
   snd (adjust_calories_based_on_progress_b64 2000 180 104 5
          [\<lparr>wl_username = ''u'', wl_log_date = 8, wl_weight = b64 110.2, wl_notes = []\<rparr>] ''u'' 10)
     ''adjusted'' = Some (PyBool False) \<and>
   snd (adjust_calories_based_on_progress_b64 2000 180 104 5
          [\<lparr>wl_username = ''u'', wl_log_date = 8, wl_weight = b64 110.2, wl_notes = []\<rparr>] ''u'' 10)
     ''difference'' = Some (PyFloat 1) \<and>
   fst (adjust_calories_based_on_progress_b64 2000 180 150 5
          [\<lparr>wl_username = ''u'', wl_log_date = 3, wl_weight = 150, wl_notes = []\<rparr>,
           \<lparr>wl_username = ''u'', wl_log_date = 8, wl_weight = 159, wl_notes = []\<rparr>,
           \<lparr>wl_username = ''u'', wl_log_date = 12, wl_weight = 100, wl_notes = []\<rparr>,
           \<lparr>wl_username = ''v'', wl_log_date = 9, wl_weight = 120, wl_notes = []\<rparr>] ''u'' 10) = 1800 \<and>
   snd (adjust_calories_based_on_progress_b64 2000 180 150 5
          [\<lparr>wl_username = ''u'', wl_log_date = 3, wl_weight = 150, wl_notes = []\<rparr>,
           \<lparr>wl_username = ''u'', wl_log_date = 8, wl_weight = 159, wl_notes = []\<rparr>,
           \<lparr>wl_username = ''u'', wl_log_date = 12, wl_weight = 100, wl_notes = []\<rparr>,
           \<lparr>wl_username = ''v'', wl_log_date = 9, wl_weight = 120, wl_notes = []\<rparr>] ''u'' 10)
     ''adjusted'' = Some (PyBool True) \<and>
   snd (adjust_calories_based_on_progress_b64 2000 180 150 5
          [\<lparr>wl_username = ''u'', wl_log_date = 3, wl_weight = 150, wl_notes = []\<rparr>,
           \<lparr>wl_username = ''u'', wl_log_date = 8, wl_weight = 159, wl_notes = []\<rparr>,
           \<lparr>wl_username = ''u'', wl_log_date = 12, wl_weight = 100, wl_notes = []\<rparr>,
           \<lparr>wl_username = ''v'', wl_log_date = 9, wl_weight = 120, wl_notes = []\<rparr>] ''u'' 10)
     ''difference'' = Some (PyFloat (3 / 2))"
proof -
  have c105: "b64 (21 / 20) = 4728779608739021 / 4503599627370496"
    using b64_scaled [of "21 / 20" 52] by (simp add: round_half_even_def b64_scale_def)
  have b2000: "b64 (2000) = 2000"
    using b64_scaled [of "2000" 42] by (simp add: round_half_even_def b64_scale_def)
  have e_a: "b64 (241167760045690071 / 2251799813685248) = 7536492501427815 / 70368744177664"
    using b64_scaled [of "241167760045690071 / 2251799813685248" 46] by (simp add: round_half_even_def b64_scale_def)
  have l_a: "b64 (1061 / 10) = 3733061878625075 / 35184372088832"
    using b64_scaled [of "1061 / 10" 46] by (simp add: round_half_even_def b64_scale_def)
  have d_a: "b64 (- (70368744177665 / 70368744177664)) = - (70368744177665 / 70368744177664)"
    using b64_scaled [of "- (70368744177665 / 70368744177664)" 52] by (simp add: round_half_even_def b64_scale_def)
  have cal_a: "b64 (2200) = 2200"
    using b64_scaled [of "2200" 41] by (simp add: round_half_even_def b64_scale_def)
  have e_b: "b64 (61474134913607273 / 562949953421312) = 7684266864200909 / 70368744177664"
    using b64_scaled [of "61474134913607273 / 562949953421312" 46] by (simp add: round_half_even_def b64_scale_def)
  have l_b: "b64 (551 / 5) = 7754635608378573 / 70368744177664"
    using b64_scaled [of "551 / 5" 46] by (simp add: round_half_even_def b64_scale_def)
  have d_b: "b64 (1) = 1"
    using b64_scaled [of "1" 52] by (simp add: round_half_even_def b64_scale_def)
  have e_c: "b64 (354658470655426575 / 2251799813685248) = 315 / 2"
    using b64_scaled [of "354658470655426575 / 2251799813685248" 45] by (simp add: round_half_even_def b64_scale_def)
  have d_c: "b64 (3 / 2) = 3 / 2"
    using b64_scaled [of "3 / 2" 52] by (simp add: round_half_even_def b64_scale_def)
  have cal_c: "b64 (1800) = 1800"
    using b64_scaled [of "1800" 42] by (simp add: round_half_even_def b64_scale_def)
  note vals = c105 b2000 l_a e_a d_a cal_a l_b e_b d_b e_c d_c cal_c
  note defs = latest_weight_log_def order_by_log_date_desc_def first_row_def Let_def split_beta
  have days: "(5::int) > 3" by simp
  have r_a: "\<lparr>wl_username = ''u'', wl_log_date = 8, wl_weight = b64 106.1, wl_notes = []\<rparr>
      \<in> set [\<lparr>wl_username = ''u'', wl_log_date = 8, wl_weight = b64 106.1, wl_notes = []\<rparr>]"
      "wl_username \<lparr>wl_username = ''u'', wl_log_date = 8, wl_weight = b64 106.1, wl_notes = []\<rparr> = ''u''"
      "wl_log_date \<lparr>wl_username = ''u'', wl_log_date = 8, wl_weight = b64 106.1, wl_notes = []\<rparr> \<le> 10"
    by simp_all
  from adjuster_comparison_b64 [OF days r_a b2000, of 102 180]
  have w_a: "fst (adjust_calories_based_on_progress_b64 2000 180 102 5
          [\<lparr>wl_username = ''u'', wl_log_date = 8, wl_weight = b64 106.1, wl_notes = []\<rparr>] ''u'' 10) = 2200 \<and>
        snd (adjust_calories_based_on_progress_b64 2000 180 102 5
          [\<lparr>wl_username = ''u'', wl_log_date = 8, wl_weight = b64 106.1, wl_notes = []\<rparr>] ''u'' 10)
     ''adjusted'' = Some (PyBool True) \<and>
        snd (adjust_calories_based_on_progress_b64 2000 180 102 5
          [\<lparr>wl_username = ''u'', wl_log_date = 8, wl_weight = b64 106.1, wl_notes = []\<rparr>] ''u'' 10)
     ''difference'' = Some (PyFloat (- (70368744177665 / 70368744177664)))"
    by (simp add: defs vals)
  have r_b: "\<lparr>wl_username = ''u'', wl_log_date = 8, wl_weight = b64 110.2, wl_notes = []\<rparr>
      \<in> set [\<lparr>wl_username = ''u'', wl_log_date = 8, wl_weight = b64 110.2, wl_notes = []\<rparr>]"
      "wl_username \<lparr>wl_username = ''u'', wl_log_date = 8, wl_weight = b64 110.2, wl_notes = []\<rparr> = ''u''"
      "wl_log_date \<lparr>wl_username = ''u'', wl_log_date = 8, wl_weight = b64 110.2, wl_notes = []\<rparr> \<le> 10"
    by simp_all
  from adjuster_comparison_b64 [OF days r_b b2000, of 104 180]
  have w_b: "fst (adjust_calories_based_on_progress_b64 2000 180 104 5
          [\<lparr>wl_username = ''u'', wl_log_date = 8, wl_weight = b64 110.2, wl_notes = []\<rparr>] ''u'' 10) = 2000 \<and>
        snd (adjust_calories_based_on_progress_b64 2000 180 104 5
          [\<lparr>wl_username = ''u'', wl_log_date = 8, wl_weight = b64 110.2, wl_notes = []\<rparr>] ''u'' 10)
     ''adjusted'' = Some (PyBool False) \<and>
        snd (adjust_calories_based_on_progress_b64 2000 180 104 5
          [\<lparr>wl_username = ''u'', wl_log_date = 8, wl_weight = b64 110.2, wl_notes = []\<rparr>] ''u'' 10)
     ''difference'' = Some (PyFloat 1)"
    by (simp add: defs vals)
  have r_c: "\<lparr>wl_username = ''u'', wl_log_date = 8, wl_weight = 159, wl_notes = []\<rparr>
      \<in> set [\<lparr>wl_username = ''u'', wl_log_date = 3, wl_weight = 150, wl_notes = []\<rparr>,
           \<lparr>wl_username = ''u'', wl_log_date = 8, wl_weight = 159, wl_notes = []\<rparr>,
           \<lparr>wl_username = ''u'', wl_log_date = 12, wl_weight = 100, wl_notes = []\<rparr>,
           \<lparr>wl_username = ''v'', wl_log_date = 9, wl_weight = 120, wl_notes = []\<rparr>]"
      "wl_username \<lparr>wl_username = ''u'', wl_log_date = 8, wl_weight = 159, wl_notes = []\<rparr> = ''u''"
      "wl_log_date \<lparr>wl_username = ''u'', wl_log_date = 8, wl_weight = 159, wl_notes = []\<rparr> \<le> 10"
    by simp_all
  from adjuster_comparison_b64 [OF days r_c b2000, of 150 180]
  have w_c: "fst (adjust_calories_based_on_progress_b64 2000 180 150 5
          [\<lparr>wl_username = ''u'', wl_log_date = 3, wl_weight = 150, wl_notes = []\<rparr>,
           \<lparr>wl_username = ''u'', wl_log_date = 8, wl_weight = 159, wl_notes = []\<rparr>,
           \<lparr>wl_username = ''u'', wl_log_date = 12, wl_weight = 100, wl_notes = []\<rparr>,
           \<lparr>wl_username = ''v'', wl_log_date = 9, wl_weight = 120, wl_notes = []\<rparr>] ''u'' 10) = 1800 \<and>
        snd (adjust_calories_based_on_progress_b64 2000 180 150 5
          [\<lparr>wl_username = ''u'', wl_log_date = 3, wl_weight = 150, wl_notes = []\<rparr>,
           \<lparr>wl_username = ''u'', wl_log_date = 8, wl_weight = 159, wl_notes = []\<rparr>,
           \<lparr>wl_username = ''u'', wl_log_date = 12, wl_weight = 100, wl_notes = []\<rparr>,
           \<lparr>wl_username = ''v'', wl_log_date = 9, wl_weight = 120, wl_notes = []\<rparr>] ''u'' 10)
     ''adjusted'' = Some (PyBool True) \<and>
        snd (adjust_calories_based_on_progress_b64 2000 180 150 5
          [\<lparr>wl_username = ''u'', wl_log_date = 3, wl_weight = 150, wl_notes = []\<rparr>,
           \<lparr>wl_username = ''u'', wl_log_date = 8, wl_weight = 159, wl_notes = []\<rparr>,
           \<lparr>wl_username = ''u'', wl_log_date = 12, wl_weight = 100, wl_notes = []\<rparr>,
           \<lparr>wl_username = ''v'', wl_log_date = 9, wl_weight = 120, wl_notes = []\<rparr>] ''u'' 10)
     ''difference'' = Some (PyFloat (3 / 2))"
    by (simp add: defs vals)
  from days b2000 w_a w_b w_c show ?thesis by simp
qed

subsection \<open>Activity tier selection\<close>

text \<open>The chain of comparisons that both pages contain picks the rows by exact match.\<close>

lemma tier_chain_exact:
  "exact_match_tiers
     \<lparr>t_bmr = bmr, t_lean_body_mass = lbm, t_days_to_goal = d,
      t_base_calories = fst (if d = 3 then (bmr * 1.725, 0.25)
             else if d = 2 then (bmr * 1.55, 0.35)
             else if d = 1 then (bmr * 1.375, 0.45)
             else (bmr * 1.725, 0.25)),
      t_fat_pct = snd (if d = 3 then (bmr * 1.725, 0.25 :: real)
             else if d = 2 then (bmr * 1.55, 0.35)
             else if d = 1 then (bmr * 1.375, 0.45)
             else (bmr * 1.725, 0.25)),
      t_target_calories = tc, t_adjustment_info = info, t_macros = ma, t_micros = mi\<rparr>"
  by (simp add: exact_match_tiers_def tier_row_def)

lemma food_log_page_tiers:
  "exact_match_tiers (food_log_page_targets profile session logged_in_user current_date)"
  unfolding food_log_page_targets_def Let_def split_beta by (rule tier_chain_exact)

lemma profile_page_tiers:
  assumes "weight > 0" and "height > 0"
  shows "\<exists>t. profile_page_targets weight target_weight height today_date target_date
               bodyfat_percentage session logged_in_user = Some t \<and>
             t_days_to_goal t = target_date - today_date \<and>
             t_bmr t = calculate_bmr_and_calories weight height (Some bodyfat_percentage) \<and>
             exact_match_tiers t"
  using assms unfolding profile_page_targets_def Let_def split_beta
  by (simp add: tier_chain_exact)

text \<open>
  Claim C5. For every integer number of days to the goal the activity tier is an
  exact-match lookup, on the food log page and on the profile page: 3 days give the
  multiplier 1.725 and the fat fraction 0.25, 2 days give 1.55 and 0.35, 1 day gives
  1.375 and 0.45, and every other number (0, the negative ones and those from 4 on)
  gives the default 1.725 and 0.25; the base calories are the BMR times the multiplier.
\<close>

theorem activity_tier_lookup:
  "(let t = food_log_page_targets profile session logged_in_user current_date
    in t_days_to_goal t = up_target_date profile - current_date \<and>
       t_bmr t = calculate_bmr_and_calories (up_weight profile) (up_height profile)
                   (up_bodyfat_percentage profile) \<and>
       exact_match_tiers t) \<and>
   (weight > 0 \<and> height > 0 \<longrightarrow>
      (\<exists>t. profile_page_targets weight target_weight height today_date target_date
              bodyfat_percentage session' logged_in_user' = Some t \<and>
           t_days_to_goal t = target_date - today_date \<and>
           t_bmr t = calculate_bmr_and_calories weight height (Some bodyfat_percentage) \<and>
           exact_match_tiers t))"
proof -
  have "t_days_to_goal (food_log_page_targets profile session logged_in_user current_date)
          = up_target_date profile - current_date"
    by (simp add: food_log_page_targets_def Let_def split_beta)
  moreover have "t_bmr (food_log_page_targets profile session logged_in_user current_date)
          = calculate_bmr_and_calories (up_weight profile) (up_height profile)
              (up_bodyfat_percentage profile)"
    by (simp add: food_log_page_targets_def Let_def split_beta)
  ultimately show ?thesis
    using food_log_page_tiers profile_page_tiers by (simp add: Let_def)
qed

theorem activity_tier_lookup_witness:
  "t_days_to_goal (food_log_page_targets
       \<lparr>up_username = ''u'', up_weight = 180, up_target_weight = 175, up_today_date = 10,
        up_target_date = 15, up_bodyfat_percentage = Some 20, up_height = 70\<rparr>
       [] ''u'' 12) = 3 \<and>
   t_base_calories (food_log_page_targets
       \<lparr>up_username = ''u'', up_weight = 180, up_target_weight = 175, up_today_date = 10,
        up_target_date = 15, up_bodyfat_percentage = Some 20, up_height = 70\<rparr>
       [] ''u'' 12)
     = t_bmr (food_log_page_targets
       \<lparr>up_username = ''u'', up_weight = 180, up_target_weight = 175, up_today_date = 10,
        up_target_date = 15, up_bodyfat_percentage = Some 20, up_height = 70\<rparr>
       [] ''u'' 12) * 1.725 \<and>
   t_fat_pct (food_log_page_targets
       \<lparr>up_username = ''u'', up_weight = 180, up_target_weight = 175, up_today_date = 10,
        up_target_date = 15, up_bodyfat_percentage = Some 20, up_height = 70\<rparr>
       [] ''u'' 12) = 0.25 \<and>
   t_days_to_goal (food_log_page_targets
       \<lparr>up_username = ''u'', up_weight = 180, up_target_weight = 175, up_today_date = 10,
        up_target_date = 15, up_bodyfat_percentage = Some 20, up_height = 70\<rparr>
       [] ''u'' 13) = 2 \<and>
   t_base_calories (food_log_page_targets
       \<lparr>up_username = ''u'', up_weight = 180, up_target_weight = 175, up_today_date = 10,
        up_target_date = 15, up_bodyfat_percentage = Some 20, up_height = 70\<rparr>
       [] ''u'' 13)
     = t_bmr (food_log_page_targets
       \<lparr>up_username = ''u'', up_weight = 180, up_target_weight = 175, up_today_date = 10,
        up_target_date = 15, up_bodyfat_percentage = Some 20, up_height = 70\<rparr>
       [] ''u'' 13) * 1.55 \<and>
   t_fat_pct (food_log_page_targets
       \<lparr>up_username = ''u'', up_weight = 180, up_target_weight = 175, up_today_date = 10,
        up_target_date = 15, up_bodyfat_percentage = Some 20, up_height = 70\<rparr>
       [] ''u'' 13) = 0.35 \<and>
   t_days_to_goal (food_log_page_targets
       \<lparr>up_username = ''u'', up_weight = 180, up_target_weight = 175, up_today_date = 10,
        up_target_date = 15, up_bodyfat_percentage = Some 20, up_height = 70\<rparr>
       [] ''u'' 14) = 1 \<and>
   t_base_calories (food_log_page_targets
       \<lparr>up_username = ''u'', up_weight = 180, up_target_weight = 175, up_today_date = 10,
        up_target_date = 15, up_bodyfat_percentage = Some 20, up_height = 70\<rparr>
       [] ''u'' 14)
     = t_bmr (food_log_page_targets
       \<lparr>up_username = ''u'', up_weight = 180, up_target_weight = 175, up_today_date = 10,
        up_target_date = 15, up_bodyfat_percentage = Some 20, up_height = 70\<rparr>
       [] ''u'' 14) * 1.375 \<and>
   t_fat_pct (food_log_page_targets
       \<lparr>up_username = ''u'', up_weight = 180, up_target_weight = 175, up_today_date = 10,
        up_target_date = 15, up_bodyfat_percentage = Some 20, up_height = 70\<rparr>
       [] ''u'' 14) = 0.45 \<and>
   t_days_to_goal (food_log_page_targets
       \<lparr>up_username = ''u'', up_weight = 180, up_target_weight = 175, up_today_date = 10,
        up_target_date = 15, up_bodyfat_percentage = Some 20, up_height = 70\<rparr>
       [] ''u'' 15) = 0 \<and>
   t_base_calories (food_log_page_targets
       \<lparr>up_username = ''u'', up_weight = 180, up_target_weight = 175, up_today_date = 10,
        up_target_date = 15, up_bodyfat_percentage = Some 20, up_height = 70\<rparr>
       [] ''u'' 15)
     = t_bmr (food_log_page_targets
       \<lparr>up_username = ''u'', up_weight = 180, up_target_weight = 175, up_today_date = 10,
        up_target_date = 15, up_bodyfat_percentage = Some 20, up_height = 70\<rparr>
       [] ''u'' 15) * 1.725 \<and>
   t_fat_pct (food_log_page_targets
       \<lparr>up_username = ''u'', up_weight = 180, up_target_weight = 175, up_today_date = 10,
        up_target_date = 15, up_bodyfat_percentage = Some 20, up_height = 70\<rparr>
       [] ''u'' 15) = 0.25 \<and>
   t_days_to_goal (food_log_page_targets
       \<lparr>up_username = ''u'', up_weight = 180, up_target_weight = 175, up_today_date = 10,
        up_target_date = 15, up_bodyfat_percentage = Some 20, up_height = 70\<rparr>
       [] ''u'' 11) = 4 \<and>
   t_base_calories (food_log_page_targets
       \<lparr>up_username = ''u'', up_weight = 180, up_target_weight = 175, up_today_date = 10,
        up_target_date = 15, up_bodyfat_percentage = Some 20, up_height = 70\<rparr>
       [] ''u'' 11)
     = t_bmr (food_log_page_targets
       \<lparr>up_username = ''u'', up_weight = 180, up_target_weight = 175, up_today_date = 10,
        up_target_date = 15, up_bodyfat_percentage = Some 20, up_height = 70\<rparr>
       [] ''u'' 11) * 1.725 \<and>
   t_fat_pct (food_log_page_targets
       \<lparr>up_username = ''u'', up_weight = 180, up_target_weight = 175, up_today_date = 10,
        up_target_date = 15, up_bodyfat_percentage = Some 20, up_height = 70\<rparr>
       [] ''u'' 11) = 0.25 \<and>
   t_days_to_goal (food_log_page_targets
       \<lparr>up_username = ''u'', up_weight = 180, up_target_weight = 175, up_today_date = 10,
        up_target_date = 15, up_bodyfat_percentage = Some 20, up_height = 70\<rparr>
       [] ''u'' 20) = - 5 \<and>
   t_base_calories (food_log_page_targets
       \<lparr>up_username = ''u'', up_weight = 180, up_target_weight = 175, up_today_date = 10,
        up_target_date = 15, up_bodyfat_percentage = Some 20, up_height = 70\<rparr>
       [] ''u'' 20)
     = t_bmr (food_log_page_targets
       \<lparr>up_username = ''u'', up_weight = 180, up_target_weight = 175, up_today_date = 10,
        up_target_date = 15, up_bodyfat_percentage = Some 20, up_height = 70\<rparr>
       [] ''u'' 20) * 1.725 \<and>
   t_fat_pct (food_log_page_targets
       \<lparr>up_username = ''u'', up_weight = 180, up_target_weight = 175, up_today_date = 10,
        up_target_date = 15, up_bodyfat_percentage = Some 20, up_height = 70\<rparr>
       [] ''u'' 20) = 0.25 \<and>
   (180::real) > 0 \<and> (70::real) > 0 \<and>
   map_option t_fat_pct (profile_page_targets 180 175 70 13 15 20 [] ''u'') = Some 0.35 \<and>
   map_option t_base_calories (profile_page_targets 180 175 70 13 15 20 [] ''u'')
     = Some (calculate_bmr_and_calories 180 70 (Some 20) * 1.55)"
proof -
  let ?p = "\<lparr>up_username = ''u'', up_weight = 180, up_target_weight = 175, up_today_date = 10,
        up_target_date = 15, up_bodyfat_percentage = Some 20, up_height = 70\<rparr>"
  note defs = exact_match_tiers_def tier_row_def Let_def
  note inst = activity_tier_lookup [where profile = ?p and session = "[]"
      and logged_in_user = "''u''" and weight = 180 and height = 70 and target_weight = 175
      and today_date = 13 and target_date = 15 and bodyfat_percentage = 20
      and session' = "[]" and logged_in_user' = "''u''"]
  from inst [where current_date = 12]
  have r0: "t_days_to_goal (food_log_page_targets ?p [] ''u'' 12) = 3 \<and>
        t_base_calories (food_log_page_targets ?p [] ''u'' 12) = t_bmr (food_log_page_targets ?p [] ''u'' 12) * 1.725 \<and>
        t_fat_pct (food_log_page_targets ?p [] ''u'' 12) = 0.25"
    by (simp add: defs)
  from inst [where current_date = 13]
  have r1: "t_days_to_goal (food_log_page_targets ?p [] ''u'' 13) = 2 \<and>
        t_base_calories (food_log_page_targets ?p [] ''u'' 13) = t_bmr (food_log_page_targets ?p [] ''u'' 13) * 1.55 \<and>
        t_fat_pct (food_log_page_targets ?p [] ''u'' 13) = 0.35"
    by (simp add: defs)
  from inst [where current_date = 14]
  have r2: "t_days_to_goal (food_log_page_targets ?p [] ''u'' 14) = 1 \<and>
        t_base_calories (food_log_page_targets ?p [] ''u'' 14) = t_bmr (food_log_page_targets ?p [] ''u'' 14) * 1.375 \<and>
        t_fat_pct (food_log_page_targets ?p [] ''u'' 14) = 0.45"
    by (simp add: defs)
  from inst [where current_date = 15]
  have r3: "t_days_to_goal (food_log_page_targets ?p [] ''u'' 15) = 0 \<and>
        t_base_calories (food_log_page_targets ?p [] ''u'' 15) = t_bmr (food_log_page_targets ?p [] ''u'' 15) * 1.725 \<and>
        t_fat_pct (food_log_page_targets ?p [] ''u'' 15) = 0.25"
    by (simp add: defs)
  from inst [where current_date = 11]
  have r4: "t_days_to_goal (food_log_page_targets ?p [] ''u'' 11) = 4 \<and>
        t_base_calories (food_log_page_targets ?p [] ''u'' 11) = t_bmr (food_log_page_targets ?p [] ''u'' 11) * 1.725 \<and>
        t_fat_pct (food_log_page_targets ?p [] ''u'' 11) = 0.25"
    by (simp add: defs)
  from inst [where current_date = 20]
  have r5: "t_days_to_goal (food_log_page_targets ?p [] ''u'' 20) = - 5 \<and>
        t_base_calories (food_log_page_targets ?p [] ''u'' 20) = t_bmr (food_log_page_targets ?p [] ''u'' 20) * 1.725 \<and>
        t_fat_pct (food_log_page_targets ?p [] ''u'' 20) = 0.25"
    by (simp add: defs)
  from inst [where current_date = 12]
  have pp: "map_option t_fat_pct (profile_page_targets 180 175 70 13 15 20 [] ''u'') = Some 0.35 \<and>
        map_option t_base_calories (profile_page_targets 180 175 70 13 15 20 [] ''u'')
          = Some (calculate_bmr_and_calories 180 70 (Some 20) * 1.55)"
    by (auto simp add: defs)
  from r0 r1 r2 r3 r4 r5 pp show ?thesis by simp
qed

subsection \<open>Monotonicity of the Katch-McArdle branch\<close>

lemma katch_mcardle_value:
  "b > 0 \<Longrightarrow> calculate_bmr_and_calories weight height (Some b)
     = 370 + 21.6 * (weight * 0.453592 * (1 - b / 100))"
  by (simp add: calculate_bmr_and_calories_def bodyfat_known_def truthy_def)

text \<open>
  Claim C7 says that for every body fat percentage above 0 and within the range 0 to 100
  the Katch-McArdle BMR is strictly increasing in the weight. At a body fat of 100
  percent, which the range and the profile form admit, the lean mass is zero and the BMR
  is 370 for every weight: 180 lbs and 200 lbs give the same value.
\<close>

theorem katch_mcardle_counterexample:
  "\<not> (calculate_bmr_and_calories 180 70 (Some 100) < calculate_bmr_and_calories 200 70 (Some 100))"
  by (simp add: katch_mcardle_value)

text \<open>
  Claim C7, amended. For a body fat percentage above 0 and at most 100 the
  Katch-McArdle BMR does not decrease when the weight grows, the percentage held fixed;
  for a weight that is not negative it does not grow when the body fat percentage
  grows, over all positive percentages, the weight held fixed. The order is not strict:
  at 100 percent the BMR is 370 for every weight.
\<close>

theorem katch_mcardle_order:
  "(0 < b \<and> b \<le> 100 \<and> w1 \<le> w2 \<longrightarrow>
      calculate_bmr_and_calories w1 height (Some b)
        \<le> calculate_bmr_and_calories w2 height (Some b)) \<and>
   (0 < b1 \<and> b1 \<le> b2 \<and> 0 \<le> weight \<longrightarrow>
      calculate_bmr_and_calories weight height (Some b2)
        \<le> calculate_bmr_and_calories weight height (Some b1)) \<and>
   calculate_bmr_and_calories weight height (Some 100) = 370"
proof (intro conjI impI)
  assume a: "0 < b \<and> b \<le> 100 \<and> w1 \<le> w2"
  then have "0 \<le> 1 - b / 100" by simp
  with a have "w1 * (1 - b / 100) \<le> w2 * (1 - b / 100)"
    by (simp add: mult_right_mono)
  with a show "calculate_bmr_and_calories w1 height (Some b)
      \<le> calculate_bmr_and_calories w2 height (Some b)"
    by (simp add: katch_mcardle_value)
next
  assume a: "0 < b1 \<and> b1 \<le> b2 \<and> 0 \<le> weight"
  then have "1 - b2 / 100 \<le> 1 - b1 / 100" by simp
  with a have "weight * (1 - b2 / 100) \<le> weight * (1 - b1 / 100)"
    by (simp add: mult_left_mono)
  with a show "calculate_bmr_and_calories weight height (Some b2)
      \<le> calculate_bmr_and_calories weight height (Some b1)"
    by (simp add: katch_mcardle_value)
next
  show "calculate_bmr_and_calories weight height (Some 100) = 370"
    by (simp add: katch_mcardle_value)
qed

theorem katch_mcardle_order_witness:
  "(0::real) < 20 \<and> (20::real) \<le> 100 \<and> (180::real) \<le> 200 \<and>
   calculate_bmr_and_calories 180 70 (Some 20) \<le> calculate_bmr_and_calories 200 70 (Some 20) \<and>
   (0::real) < 20 \<and> (20::real) \<le> 25 \<and> (0::real) \<le> 180 \<and>
   calculate_bmr_and_calories 180 70 (Some 25) \<le> calculate_bmr_and_calories 180 70 (Some 20) \<and>
   calculate_bmr_and_calories 180 70 (Some 100) = 370"
  using katch_mcardle_order [of 20 180 200 70 20 25 180]
  by simp

text \<open>
  The same order holds of the binary64 results, since rounding keeps the order. There
  the order is not strict below 100 percent either: a body fat of 20 and the next
  binary64 value above 20 give the same BMR, 1780.8525568.
\<close>

lemma katch_mcardle_value_b64:
  "b > 0 \<Longrightarrow> calculate_bmr_and_calories_b64 weight height (Some b)
     = b64 (370 + b64 (b64 21.6 * b64 (b64 (weight * b64 0.453592) * b64 (1 - b64 (b / 100)))))"
  by (simp add: calculate_bmr_and_calories_b64_def bodyfat_known_def truthy_def Let_def)

lemma katch_mcardle_order_b64:
  "(0 < b \<and> b \<le> 100 \<and> w1 \<le> w2 \<longrightarrow>
      calculate_bmr_and_calories_b64 w1 height (Some b)
        \<le> calculate_bmr_and_calories_b64 w2 height (Some b)) \<and>
   (0 < b1 \<and> b1 \<le> b2 \<and> 0 \<le> weight \<longrightarrow>
      calculate_bmr_and_calories_b64 weight height (Some b2)
        \<le> calculate_bmr_and_calories_b64 weight height (Some b1))"
proof (intro conjI impI)
  define k where "k = b64 0.453592"
  define c where "c = b64 21.6"
  have k: "0 \<le> k" unfolding k_def by (rule b64_nonneg) simp
  have c: "0 \<le> c" unfolding c_def by (rule b64_nonneg) simp
  have val: "calculate_bmr_and_calories_b64 w height (Some p)
      = b64 (370 + b64 (c * b64 (b64 (w * k) * b64 (1 - b64 (p / 100)))))" if "0 < p" for w p
    using that by (simp add: katch_mcardle_value_b64 k_def c_def)
  have step: "b64 (370 + b64 (c * b64 (x * r))) \<le> b64 (370 + b64 (c * b64 (y * s)))"
    if "x * r \<le> y * s" for x y r s
  proof -
    from that have "b64 (x * r) \<le> b64 (y * s)" by (rule b64_mono)
    with c have "c * b64 (x * r) \<le> c * b64 (y * s)" by (rule mult_left_mono [rotated])
    then have "b64 (c * b64 (x * r)) \<le> b64 (c * b64 (y * s))" by (rule b64_mono)
    then have "370 + b64 (c * b64 (x * r)) \<le> 370 + b64 (c * b64 (y * s))" by simp
    then show ?thesis by (rule b64_mono)
  qed
  {
    assume a: "0 < b \<and> b \<le> 100 \<and> w1 \<le> w2"
    then have "b / 100 \<le> 1" by simp
    then have "b64 (b / 100) \<le> b64 1" by (rule b64_mono)
    then have "0 \<le> 1 - b64 (b / 100)" by (simp add: b64_one)
    then have r: "0 \<le> b64 (1 - b64 (b / 100))" by (rule b64_nonneg)
    from a k have "w1 * k \<le> w2 * k" by (simp add: mult_right_mono)
    then have "b64 (w1 * k) \<le> b64 (w2 * k)" by (rule b64_mono)
    with r have "b64 (w1 * k) * b64 (1 - b64 (b / 100)) \<le> b64 (w2 * k) * b64 (1 - b64 (b / 100))"
      by (rule mult_right_mono [rotated])
    then show "calculate_bmr_and_calories_b64 w1 height (Some b)
        \<le> calculate_bmr_and_calories_b64 w2 height (Some b)"
      using a by (simp add: val step)
  }
  {
    assume a: "0 < b1 \<and> b1 \<le> b2 \<and> 0 \<le> weight"
    then have "b1 / 100 \<le> b2 / 100" by simp
    then have "b64 (b1 / 100) \<le> b64 (b2 / 100)" by (rule b64_mono)
    then have "1 - b64 (b2 / 100) \<le> 1 - b64 (b1 / 100)" by simp
    then have r: "b64 (1 - b64 (b2 / 100)) \<le> b64 (1 - b64 (b1 / 100))" by (rule b64_mono)
    from a k have "0 \<le> weight * k" by simp
    then have "0 \<le> b64 (weight * k)" by (rule b64_nonneg)
    with r have "b64 (weight * k) * b64 (1 - b64 (b2 / 100))
        \<le> b64 (weight * k) * b64 (1 - b64 (b1 / 100))"
      by (rule mult_left_mono)
    then show "calculate_bmr_and_calories_b64 weight height (Some b2)
        \<le> calculate_bmr_and_calories_b64 weight height (Some b1)"
      using a by (simp add: val step)
  }
qed

lemma katch_mcardle_plateau_b64:
  "calculate_bmr_and_calories_b64 180 70 (Some 20) = 3916136187112439 / 2199023255552 \<and>
   calculate_bmr_and_calories_b64 180 70 (Some (20 + 1 / 2 ^ 48)) = 3916136187112439 / 2199023255552"
proof -
  have v_k_a: "b64 (56699 / 125000) = 1021398381089119 / 2251799813685248"
    using b64_scaled [of "56699 / 125000" 54] by (simp add: round_half_even_def b64_scale_def)
  have v_c_a: "b64 (108 / 5) = 3039929748475085 / 140737488355328"
    using b64_scaled [of "108 / 5" 48] by (simp add: round_half_even_def b64_scale_def)
  have v_wkg_a: "b64 (45962927149010355 / 562949953421312) = 2872682946813147 / 35184372088832"
    using b64_scaled [of "45962927149010355 / 562949953421312" 46] by (simp add: round_half_even_def b64_scale_def)
  have v_r1_a: "b64 (1 / 5) = 3602879701896397 / 18014398509481984"
    using b64_scaled [of "1 / 5" 55] by (simp add: round_half_even_def b64_scale_def)
  have v_r2_a: "b64 (14411518807585587 / 18014398509481984) = 3602879701896397 / 4503599627370496"
    using b64_scaled [of "14411518807585587 / 18014398509481984" 53] by (simp add: round_half_even_def b64_scale_def)
  have v_lean_a: "b64 (10349931079057014341703511531359 / 158456325028528675187087900672) = 4596292714901035 / 70368744177664"
    using b64_scaled [of "10349931079057014341703511531359 / 158456325028528675187087900672" 46] by (simp add: round_half_even_def b64_scale_def)
  have v_m_a: "b64 (13972406956726968896947938212975 / 9903520314283042199192993792) = 3102497582558199 / 2199023255552"
    using b64_scaled [of "13972406956726968896947938212975 / 9903520314283042199192993792" 42] by (simp add: round_half_even_def b64_scale_def)
  have v_res_a: "b64 (3916136187112439 / 2199023255552) = 3916136187112439 / 2199023255552"
    using b64_scaled [of "3916136187112439 / 2199023255552" 42] by (simp add: round_half_even_def b64_scale_def)
  have v_r1_b: "b64 (5629499534213121 / 28147497671065600) = 7205759403792795 / 36028797018963968"
    using b64_scaled [of "5629499534213121 / 28147497671065600" 55] by (simp add: round_half_even_def b64_scale_def)
  have v_r2_b: "b64 (28823037615171173 / 36028797018963968) = 7205759403792793 / 9007199254740992"
    using b64_scaled [of "28823037615171173 / 36028797018963968" 53] by (simp add: round_half_even_def b64_scale_def)
  have v_lean_b: "b64 (20699862158114025810724076249571 / 316912650057057350374175801344) = 4596292714901035 / 70368744177664"
    using b64_scaled [of "20699862158114025810724076249571 / 316912650057057350374175801344" 46] by (simp add: round_half_even_def b64_scale_def)
  note vals = v_k_a v_c_a v_wkg_a v_r1_a v_r2_a v_lean_a v_m_a v_res_a v_r1_b v_r2_b v_lean_b
  show ?thesis
    by (simp add: calculate_bmr_and_calories_b64_def bodyfat_known_def truthy_def Let_def vals)
qed

subsection \<open>The fields of the adjustment info\<close>




subsection \<open>The daily plan, end to end\<close>

text \<open>
  Claim C8. For a profile with weight 180 lbs, height 70 in, body fat 20 percent, target
  weight 175 and a target date 5 days after the evaluation date, and a user with no
  weight entry on or before the evaluation date, the plan of the food log page has the
  Katch-McArdle BMR, base calories of BMR times 1.725, target calories equal to the base
  calories (not adjusted), 30 g of fibre and 2300 mg of sodium (the default tier), and
  protein of (180 \<times> 0.8) \<times> 1.2 = 172.8 g.
\<close>

theorem end_to_end_plan:
  assumes "\<forall>l\<in>set session. \<not> (wl_username l = logged_in_user \<and> wl_log_date l \<le> current_date)"
  shows "let t = food_log_page_targets
                   \<lparr>up_username = logged_in_user, up_weight = 180, up_target_weight = 175,
                    up_today_date = today_date, up_target_date = current_date + 5,
                    up_bodyfat_percentage = Some 20, up_height = 70\<rparr>
                   session logged_in_user current_date
         in t_bmr t = 370 + 21.6 * (180 * 0.453592 * (1 - 20 / 100)) \<and>
            t_base_calories t = t_bmr t * 1.725 \<and>
            t_target_calories t = t_base_calories t \<and>
            t_adjustment_info t ''adjusted'' = Some (PyBool False) \<and>
            t_adjustment_info t ''needs_weight_log'' = Some (PyBool True) \<and>
            fiber_grams (t_micros t) = 30 \<and>
            sodium_mg (t_micros t) = 2300 \<and>
            protein_grams (t_macros t) = (180 * 0.8) * 1.2 \<and>
            protein_grams (t_macros t) = 172.8"
proof -
  from assms have none: "latest_weight_log session logged_in_user current_date = None"
    by (simp only: latest_weight_log_None_iff)
  have adj: "adjust_calories_based_on_progress base_calories 180 175 5 session logged_in_user
               current_date
             = (base_calories,
                [''adjusted'' \<mapsto> PyBool False,
                 ''reason'' \<mapsto> PyStr
                    ''No weight logged yet - log your weight to enable dynamic adjustments'',
                 ''needs_weight_log'' \<mapsto> PyBool True])" for base_calories
    using none by (simp add: adjust_calories_based_on_progress_def)
  show ?thesis
    by (simp add: food_log_page_targets_def Let_def adj calculate_bmr_and_calories_def
          bodyfat_known_def truthy_def calculate_macros_def calculate_micros_def)
qed

theorem end_to_end_plan_witness:
  "\<not> (\<exists>l\<in>set [\<lparr>wl_username = ''v'', wl_log_date = 3, wl_weight = 140, wl_notes = []\<rparr>].
         wl_username l = ''u'' \<and> wl_log_date l \<le> 10) \<and>
   t_bmr (food_log_page_targets
            \<lparr>up_username = ''u'', up_weight = 180, up_target_weight = 175,
             up_today_date = 7, up_target_date = 10 + 5,
             up_bodyfat_percentage = Some 20, up_height = 70\<rparr>
            [\<lparr>wl_username = ''v'', wl_log_date = 3, wl_weight = 140, wl_notes = []\<rparr>] ''u'' 10)
     = 1780.8525568 \<and>
   t_target_calories (food_log_page_targets
            \<lparr>up_username = ''u'', up_weight = 180, up_target_weight = 175,
             up_today_date = 7, up_target_date = 10 + 5,
             up_bodyfat_percentage = Some 20, up_height = 70\<rparr>
            [\<lparr>wl_username = ''v'', wl_log_date = 3, wl_weight = 140, wl_notes = []\<rparr>] ''u'' 10)
     = 3071.97066048 \<and>
   protein_grams (t_macros (food_log_page_targets
            \<lparr>up_username = ''u'', up_weight = 180, up_target_weight = 175,
             up_today_date = 7, up_target_date = 10 + 5,
             up_bodyfat_percentage = Some 20, up_height = 70\<rparr>
            [\<lparr>wl_username = ''v'', wl_log_date = 3, wl_weight = 140, wl_notes = []\<rparr>] ''u'' 10))
     = 172.8 \<and>
   fiber_grams (t_micros (food_log_page_targets
            \<lparr>up_username = ''u'', up_weight = 180, up_target_weight = 175,
             up_today_date = 7, up_target_date = 10 + 5,
             up_bodyfat_percentage = Some 20, up_height = 70\<rparr>
            [\<lparr>wl_username = ''v'', wl_log_date = 3, wl_weight = 140, wl_notes = []\<rparr>] ''u'' 10))
     = 30"
proof -
  let ?s = "[\<lparr>wl_username = ''v'', wl_log_date = 3, wl_weight = 140, wl_notes = []\<rparr>]"
  have h: "\<forall>l\<in>set ?s. \<not> (wl_username l = ''u'' \<and> wl_log_date l \<le> 10)" by simp
  from end_to_end_plan [OF h, of 7] show ?thesis by (simp add: Let_def)
qed

end
